theory Spec2Isabelle
  imports Complex_Main
begin

section \<open>Errors and sequencing\<close>

text \<open>
  The trainer of \<^verbatim>\<open>openrlhf/trainer/gpm_trainer.py\<close> is embedded as pure functions.
  Every Python exception the modelled code can raise is a value of \<open>py_error\<close>; a
  computation that may raise returns \<open>py_error + 'a\<close> with \<open>Inl\<close> for the exception.
\<close>

datatype py_error =
    AssertionError
  | NameError
  | ZeroDivisionError
  | ValueError
  | TypeError
  | KeyError
  | AttributeError
  | RuntimeError

definition bnd :: "py_error + 'a \<Rightarrow> ('a \<Rightarrow> py_error + 'b) \<Rightarrow> py_error + 'b" where
  "bnd m f = (case m of Inl e \<Rightarrow> Inl e | Inr x \<Rightarrow> f x)"

text \<open>Reading a local variable of a Python function: unbound raises NameError.\<close>

definition load :: "'a option \<Rightarrow> py_error + 'a" where
  "load v = (case v of None \<Rightarrow> Inl NameError | Some x \<Rightarrow> Inr x)"

section \<open>Tensors\<close>

text \<open>
  A two-dimensional tensor (batch, sequence) carries its shape, as a torch tensor does
  (so that \<open>size(-1)\<close> of a batch without rows is still defined), and its rows.
  Token ids and attention masks are integer tensors.
\<close>

record tensor2 =
  size0 :: nat
  size1 :: nat
  rows :: "int list list"

definition wf_tensor :: "tensor2 \<Rightarrow> bool" where
  "wf_tensor t = (length (rows t) = size0 t \<and> list_all (\<lambda>r. length r = size1 t) (rows t))"

text \<open>\<open>pad_value * torch.ones(*pad_size, dtype=tensor.dtype)\<close>\<close>

definition filled :: "int \<Rightarrow> nat \<Rightarrow> nat \<Rightarrow> tensor2" where
  "filled pad_value n m =
     \<lparr>size0 = n, size1 = m, rows = replicate n (replicate m (pad_value * 1))\<rparr>"

text \<open>\<open>torch.cat([a, b], dim=-1)\<close> for two tensors with the same number of rows.\<close>

definition cat_last :: "tensor2 \<Rightarrow> tensor2 \<Rightarrow> tensor2" where
  "cat_last a b =
     \<lparr>size0 = size0 a, size1 = size1 a + size1 b, rows = map2 (@) (rows a) (rows b)\<rparr>"

text \<open>\<open>torch.cat((a, b), dim=0)\<close>: the sequence dimensions must agree.\<close>

definition cat_first :: "tensor2 \<Rightarrow> tensor2 \<Rightarrow> py_error + tensor2" where
  "cat_first a b =
     (if size1 a = size1 b
      then Inr \<lparr>size0 = size0 a + size0 b, size1 = size1 a, rows = rows a @ rows b\<rparr>
      else Inl RuntimeError)"

text \<open>
  \<open>pad_to_length(tensor, length, pad_value, dim=-1)\<close>, the local function of
  \<open>concatenated_inputs\<close>; every call leaves \<open>dim\<close> at its default.
\<close>

definition pad_to_length :: "tensor2 \<Rightarrow> int \<Rightarrow> int \<Rightarrow> tensor2" where
  "pad_to_length tensor len pad_value =
     (if int (size1 tensor) \<ge> len then tensor
      else cat_last (filled pad_value (size0 tensor) (nat (len - int (size1 tensor)))) tensor)"

definition concatenated_inputs ::
  "int \<Rightarrow> tensor2 \<Rightarrow> tensor2 \<Rightarrow> tensor2 \<Rightarrow> tensor2 \<Rightarrow> py_error + (tensor2 \<times> tensor2)" where
  "concatenated_inputs pad_token_id chosen_ids c_mask reject_ids r_mask =
     (let max_length = max (int (size1 chosen_ids)) (int (size1 reject_ids)) in
      bnd (cat_first (pad_to_length chosen_ids max_length pad_token_id)
                     (pad_to_length reject_ids max_length pad_token_id))
        (\<lambda>inputs_ids.
           let max_length = max (int (size1 c_mask)) (int (size1 r_mask)) in
           bnd (cat_first (pad_to_length c_mask max_length 0) (pad_to_length r_mask max_length 0))
             (\<lambda>att_masks. Inr (inputs_ids, att_masks))))"

section \<open>Loss strategies and their dispatch\<close>

text \<open>
  The loss classes the trainer constructs or tests with \<open>isinstance\<close>, with the
  constructor arguments the source passes. \<open>HighDimGeneralPreferenceRegressionMoELoss\<close>
  is only ever tested for, never constructed.
\<close>

datatype loss_fn =
    PairWiseLoss real
  | GeneralPreferenceLoss real
  | HighDimGeneralPreferenceLoss real int
  | HighDimGeneralPreferenceMoELoss int real
  | HighDimGeneralPreferenceRegressionMoELoss

datatype ptx_loss_fn = SFTSumLoss real | DPORefFreeLoss real real

text \<open>Lines 65-86 of \<open>__init__\<close>: the choice of \<open>self.loss_fn\<close>.\<close>

definition select_loss_fn :: "bool \<Rightarrow> real \<Rightarrow> int \<Rightarrow> bool \<Rightarrow> py_error + loss_fn" where
  "select_loss_fn is_general_preference tau value_head_dim add_prompt_head =
     (if is_general_preference then
        (if value_head_dim = 2 \<and> \<not> add_prompt_head then Inr (GeneralPreferenceLoss tau)
         else if \<not> (value_head_dim mod 2 = 0) then Inl AssertionError
         else if add_prompt_head then Inr (HighDimGeneralPreferenceMoELoss value_head_dim tau)
         else Inr (HighDimGeneralPreferenceLoss tau value_head_dim))
      else Inr (PairWiseLoss tau))"

section \<open>Collaborators, configuration and trainer state\<close>

text \<open>
  Per-row rewards are vectors of reals; the model output is reduced to what the trainer
  reads of it, the \<open>last_hidden_state\<close> tensor of shape (batch, sequence, hidden), which
  is absent when the model returned no outputs.
\<close>

record hidden_states =
  hs_size1 :: nat
  hs_rows :: "real list list list"

definition last_hidden_state :: "hidden_states option \<Rightarrow> py_error + hidden_states" where
  "last_hidden_state outputs = (case outputs of None \<Rightarrow> Inl KeyError | Some h \<Rightarrow> Inr h)"

text \<open>
  What the dataloader yields: the non-packed tuple
  \<open>(chosen_ids, c_mask, reject_ids, r_mask, margin, chosen_response_len)\<close> (the id and
  mask tensors already squeezed) or the packed tuple
  \<open>(packed_input_ids, packed_attention_masks, packed_seq_lens, margin, chosen_response_lens)\<close>.
\<close>

datatype batch =
    PlainBatch tensor2 tensor2 tensor2 tensor2 "real list" "int list"
  | PackedBatch tensor2 tensor2 "nat list" "real list" "int list"

text \<open>The two calling conventions of \<open>self.loss_fn\<close>: without and with the prompt hidden state.\<close>

datatype loss_args =
    Args3 "real list list" "real list list" "real list option"
  | Args4 "real list list" "real list list" "real list list" "real list option"

text \<open>
  The code outside the trainer, as functions the trainer calls:
  \<open>model.custom_forward(input_ids, attention_mask, return_output, ring_attn_group, packed_seq_lens)\<close>;
  \<open>self.loss_fn(...)\<close> returning the loss and the per-sample probabilities;
  the auxiliary loss (\<open>model.forward\<close>, the label tensor and \<open>self.ptx_loss_fn\<close>) in its
  three-argument and six-argument forms; and the scheduler's last learning rate, read
  after the given micro-batch.
\<close>

record collaborators =
  custom_forward ::
    "tensor2 \<Rightarrow> tensor2 \<Rightarrow> bool \<Rightarrow> nat option \<Rightarrow> nat list option
       \<Rightarrow> py_error + (real list list \<times> hidden_states option)"
  loss_call :: "loss_fn \<Rightarrow> loss_args \<Rightarrow> py_error + (real \<times> real list)"
  sft_ptx :: "ptx_loss_fn \<Rightarrow> tensor2 \<Rightarrow> tensor2 \<Rightarrow> py_error + real"
  dpo_ptx :: "ptx_loss_fn \<Rightarrow> tensor2 \<Rightarrow> tensor2 \<Rightarrow> tensor2 \<Rightarrow> tensor2 \<Rightarrow> py_error + real"
  get_last_lr :: "int \<Rightarrow> real"

text \<open>\<open>args.save_steps\<close> is an integer until \<open>fit\<close> replaces -1 by \<open>float("inf")\<close>.\<close>

datatype py_num = PyInt int | PyInf

record args =
  arg_eval_steps :: int
  arg_save_steps :: py_num
  arg_logging_steps :: int
  arg_train_batch_size :: int
  arg_add_pretrain_loss :: bool
  arg_ptx_loss_coef :: real
  arg_margin_loss :: bool
  arg_compute_fp32_loss :: bool
  arg_packing_samples :: bool
  arg_add_prompt_head :: bool
  arg_reward_scaler_beta :: real

text \<open>
  A dataloader: whether its sampler is a \<open>GroupDistributedSampler\<close>, and the batches one
  pass over it yields given the last \<open>set_epoch(epoch, consumed_samples)\<close> call
  (\<open>None\<close> when there was none).
\<close>

record dataloader =
  is_group_sampler :: bool
  batches_for :: "(int \<times> int) option \<Rightarrow> batch list"

text \<open>The attributes of \<open>self\<close>, with those of \<open>self.strategy\<close> and the tokenizer it reads.\<close>

record trainer =
  epochs :: int
  loss_fn :: loss_fn
  ptx_loss_fn :: ptx_loss_fn
  margin_loss :: bool
  compute_fp32_loss :: bool
  packing_samples :: bool
  add_pretrain_loss :: bool
  train_dataloader :: dataloader
  eval_dataloader :: "dataloader option"
  accumulated_gradient :: int
  is_rank_0 :: bool
  ring_attn_group :: "nat option"
  pad_token_id :: int

text \<open>
  \<open>__init__\<close> (the experiment-tracker set-up left out). \<open>strategy_args\<close> is
  \<open>strategy.args\<close>; the \<open>packing_samples\<close> parameter is overwritten from it (line 96).
\<close>

definition trainer_init ::
  "args \<Rightarrow> int \<Rightarrow> bool \<Rightarrow> nat option \<Rightarrow> dataloader \<Rightarrow> dataloader option \<Rightarrow> int
     \<Rightarrow> int \<Rightarrow> bool \<Rightarrow> real \<Rightarrow> int \<Rightarrow> bool \<Rightarrow> py_error + trainer" where
  "trainer_init strategy_args strategy_accumulated_gradient strategy_is_rank_0
       strategy_ring_attn_group train_dl eval_dl tokenizer_pad_token_id
       max_epochs is_general_preference tau value_head_dim packing =
     bnd (select_loss_fn is_general_preference tau value_head_dim
            (arg_add_prompt_head strategy_args))
       (\<lambda>lf. Inr \<lparr>epochs = max_epochs,
                  loss_fn = lf,
                  ptx_loss_fn = SFTSumLoss (arg_reward_scaler_beta strategy_args),
                  margin_loss = arg_margin_loss strategy_args,
                  compute_fp32_loss = arg_compute_fp32_loss strategy_args,
                  packing_samples = arg_packing_samples strategy_args,
                  add_pretrain_loss =
                    (if arg_add_pretrain_loss strategy_args
                     then (if arg_ptx_loss_coef strategy_args > 0 then True else False)
                     else False),
                  train_dataloader = train_dl,
                  eval_dataloader = eval_dl,
                  accumulated_gradient = strategy_accumulated_gradient,
                  is_rank_0 = strategy_is_rank_0,
                  ring_attn_group = strategy_ring_attn_group,
                  pad_token_id = tokenizer_pad_token_id\<rparr>)"

text \<open>What the trainer asks of the outside world, in order.\<close>

datatype event =
    SetEpoch int int
  | Backward real
  | OptimizerStep
  | LogMetrics int "(string \<times> real) list"
  | Evaluated int "real option"
  | SaveCkpt string "(string \<times> int) list"

text \<open>
  The variables of \<open>fit\<close> that live across micro-batches: the step counter, the three
  moving averages, and the batch variables, which Python keeps bound from one iteration to
  the next once assigned (\<open>None\<close>: not yet bound). Before the first epoch the averages
  are unbound in Python; the zero they hold here is never read.
\<close>

record fit_state =
  step :: int
  acc_mean :: real
  prob_mean :: real
  loss_mean :: real
  v_chosen_ids :: "tensor2 option"
  v_c_mask :: "tensor2 option"
  v_reject_ids :: "tensor2 option"
  v_r_mask :: "tensor2 option"
  v_packed_input_ids :: "tensor2 option"
  v_packed_attention_masks :: "tensor2 option"
  v_packed_seq_lens :: "nat list option"
  events :: "event list"

text \<open>The values one micro-batch computes and reuses further down the iteration.\<close>

record iter_vals =
  chosen_reward :: "real list list"
  reject_reward :: "real list list"
  outputs :: "hidden_states option"
  chosen_response_len :: "int list"
  margin :: "real list option"

section \<open>The forward pass\<close>

datatype forward_args =
    PlainArgs tensor2 tensor2 tensor2 tensor2
  | PackedArgs tensor2 tensor2 "nat list"

text \<open>
  \<open>concatenated_forward(model, chosen_ids, c_mask, reject_ids, r_mask, return_output)\<close>.
  In packed mode the callers pass the packed ids, the packed mask and the sequence
  lengths in the first three slots and \<open>None\<close> in the fourth. Packed arguments in
  non-packed mode fail at \<open>reject_ids.shape\<close>; no caller passes the non-packed
  arguments in packed mode.
\<close>

definition concatenated_forward ::
  "trainer \<Rightarrow> collaborators \<Rightarrow> forward_args \<Rightarrow> bool
     \<Rightarrow> py_error + (real list list \<times> real list list \<times> hidden_states option)" where
  "concatenated_forward self env a return_output =
     (if \<not> packing_samples self then
        (case a of
           PlainArgs chosen_ids c_mask reject_ids r_mask \<Rightarrow>
             bnd (concatenated_inputs (pad_token_id self) chosen_ids c_mask reject_ids r_mask)
               (\<lambda>(input_ids, att_masks).
                  bnd (custom_forward env input_ids att_masks return_output None None)
                    (\<lambda>(all_values, outs).
                       Inr (take (size0 chosen_ids) all_values,
                            drop (size0 chosen_ids) all_values, outs)))
         | PackedArgs _ _ _ \<Rightarrow> Inl AttributeError)
      else
        (case a of
           PackedArgs chosen_ids c_mask reject_ids \<Rightarrow>
             bnd (custom_forward env chosen_ids c_mask return_output (ring_attn_group self)
                    (Some reject_ids))
               (\<lambda>(all_values, outs).
                  let num_sequences = length reject_ids;
                      num_chosen = num_sequences div 2
                  in Inr (take num_chosen all_values,
                          drop num_chosen (take num_sequences all_values), outs))
         | PlainArgs _ _ _ _ \<Rightarrow> Inl TypeError))"

section \<open>Loss arguments\<close>

definition is_regression_moe :: "loss_fn \<Rightarrow> bool" where
  "is_regression_moe lf =
     (case lf of HighDimGeneralPreferenceRegressionMoELoss \<Rightarrow> True | _ \<Rightarrow> False)"

definition is_moe :: "loss_fn \<Rightarrow> bool" where
  "is_moe lf =
     (case lf of
        HighDimGeneralPreferenceRegressionMoELoss \<Rightarrow> True
      | HighDimGeneralPreferenceMoELoss _ _ \<Rightarrow> True
      | _ \<Rightarrow> False)"

definition is_dpo :: "ptx_loss_fn \<Rightarrow> bool" where
  "is_dpo pf = (case pf of DPORefFreeLoss _ _ \<Rightarrow> True | _ \<Rightarrow> False)"

text \<open>\<open>last_hidden_states[:batch_size, :, :]\<close>\<close>

definition hs_take :: "nat \<Rightarrow> hidden_states \<Rightarrow> hidden_states" where
  "hs_take n h = h\<lparr>hs_rows := take n (hs_rows h)\<rparr>"

text \<open>
  The index expansion, the broadcast of a single row and \<open>torch.gather(..., dim=1, ...)\<close>
  followed by \<open>squeeze(1)\<close>: row \<open>i\<close> of the result is the hidden vector of sample \<open>i\<close> at
  position \<open>index[i]\<close>. \<open>gather\<close> refuses an index with more rows than its input and an
  index outside the sequence.
\<close>

definition gather_prompt :: "hidden_states \<Rightarrow> int list \<Rightarrow> py_error + real list list" where
  "gather_prompt chosen_last_hidden_states index =
     (let expanded =
            (if length (hs_rows chosen_last_hidden_states) = 1
             then replicate (length index) (hd (hs_rows chosen_last_hidden_states))
             else hs_rows chosen_last_hidden_states)
      in if length index > length expanded then Inl RuntimeError
         else if list_all (\<lambda>i. 0 \<le> i \<and> i < int (hs_size1 chosen_last_hidden_states)) index
         then Inr (map2 (\<lambda>row i. row ! nat i) expanded index)
         else Inl RuntimeError)"

text \<open>Lines 158 and 455: whether the forward pass is asked for the model outputs.\<close>

definition fit_return_output :: "trainer \<Rightarrow> bool" where
  "fit_return_output self =
     (if is_regression_moe (loss_fn self) \<or> is_moe (loss_fn self) then True else False)"

definition evaluate_return_output :: "trainer \<Rightarrow> bool" where
  "evaluate_return_output self = (if is_regression_moe (loss_fn self) then True else False)"

text \<open>Lines 187-205: the arguments of the first loss call of a training micro-batch.\<close>

definition fit_loss_args_first :: "trainer \<Rightarrow> fit_state \<Rightarrow> iter_vals \<Rightarrow> py_error + loss_args" where
  "fit_loss_args_first self st v =
     (if is_moe (loss_fn self) then
        bnd (last_hidden_state (outputs v))
          (\<lambda>last_hidden_states.
             bnd (if packing_samples self
                  then bnd (load (v_packed_seq_lens st)) (\<lambda>l. Inr (length l div 2))
                  else bnd (load (v_chosen_ids st)) (\<lambda>c. Inr (size0 c)))
               (\<lambda>batch_size.
                  let chosen_last_hidden_states = hs_take batch_size last_hidden_states;
                      prompt_end_index =
                        map (\<lambda>l. int (hs_size1 chosen_last_hidden_states) - l - 1)
                          (chosen_response_len v)
                  in bnd (gather_prompt chosen_last_hidden_states prompt_end_index)
                       (\<lambda>prompt_hidden_state.
                          Inr (Args4 (chosen_reward v) (reject_reward v)
                                 prompt_hidden_state (margin v)))))
      else Inr (Args3 (chosen_reward v) (reject_reward v) (margin v)))"

text \<open>Lines 271-285: the second loss call; the batch size is always \<open>chosen_ids.shape[0]\<close>.\<close>

definition fit_loss_args_second :: "trainer \<Rightarrow> fit_state \<Rightarrow> iter_vals \<Rightarrow> py_error + loss_args" where
  "fit_loss_args_second self st v =
     (if is_regression_moe (loss_fn self) \<or> is_moe (loss_fn self) then
        bnd (last_hidden_state (outputs v))
          (\<lambda>last_hidden_states.
             bnd (load (v_chosen_ids st))
               (\<lambda>c.
                  let chosen_last_hidden_states = hs_take (size0 c) last_hidden_states;
                      prompt_end_index =
                        map (\<lambda>l. int (hs_size1 chosen_last_hidden_states) - l - 1)
                          (chosen_response_len v)
                  in bnd (gather_prompt chosen_last_hidden_states prompt_end_index)
                       (\<lambda>prompt_hidden_state.
                          Inr (Args4 (chosen_reward v) (reject_reward v)
                                 prompt_hidden_state (margin v)))))
      else Inr (Args3 (chosen_reward v) (reject_reward v) (margin v)))"

text \<open>
  Lines 465-479 of \<open>evaluate\<close>. \<open>chosen_ids\<close> is a local of \<open>evaluate\<close>, bound only on
  the non-packed path (\<open>ids\<close> is \<open>None\<close> on the packed one).
\<close>

definition evaluate_loss_args ::
  "trainer \<Rightarrow> tensor2 option \<Rightarrow> iter_vals \<Rightarrow> py_error + loss_args" where
  "evaluate_loss_args self ids v =
     (if is_regression_moe (loss_fn self) then
        bnd (last_hidden_state (outputs v))
          (\<lambda>last_hidden_states.
             bnd (load ids)
               (\<lambda>c.
                  let chosen_last_hidden_states = hs_take (size0 c) last_hidden_states;
                      prompt_len =
                        map (\<lambda>l. int (hs_size1 chosen_last_hidden_states) - l)
                          (chosen_response_len v)
                  in bnd (gather_prompt chosen_last_hidden_states prompt_len)
                       (\<lambda>prompt_hidden_state.
                          Inr (Args4 (chosen_reward v) (reject_reward v)
                                 prompt_hidden_state (margin v)))))
      else Inr (Args3 (chosen_reward v) (reject_reward v) (margin v)))"

section \<open>Metrics\<close>

text \<open>
  Losses and probabilities are modelled as real numbers. \<open>tensor.mean().item()\<close> of a
  tensor without elements is NaN in torch, which the reals do not have; no property below
  rests on the mean of an empty tensor.
\<close>

definition tensor_mean :: "real list \<Rightarrow> real" where
  "tensor_mean xs = sum_list xs / real (length xs)"

text \<open>\<open>(probs > 0.5).float().mean().item()\<close>\<close>

definition accuracy :: "real list \<Rightarrow> real" where
  "accuracy probs = tensor_mean (map (\<lambda>p. if p > 0.5 then 1 else 0) probs)"

text \<open>\<open>tensor.item()\<close>: only a tensor of exactly one element converts to a scalar.\<close>

definition tensor_item :: "real list \<Rightarrow> py_error + real" where
  "tensor_item xs = (case xs of [x] \<Rightarrow> Inr x | _ \<Rightarrow> Inl RuntimeError)"

text \<open>Lines 209-211 and 289-291: one update of the three moving averages.\<close>

definition ema_update :: "fit_state \<Rightarrow> real \<Rightarrow> real list \<Rightarrow> real \<Rightarrow> fit_state" where
  "ema_update st acc probs preference_loss =
     st\<lparr>acc_mean := acc_mean st * 0.9 + 0.1 * acc,
        prob_mean := prob_mean st * 0.9 + 0.1 * tensor_mean probs,
        loss_mean := loss_mean st * 0.9 + 0.1 * preference_loss\<rparr>"

section \<open>Evaluation\<close>

text \<open>One iteration of the loop of \<open>evaluate\<close> (lines 439-484): the batch's loss and probability.\<close>

definition evaluate_batch :: "trainer \<Rightarrow> collaborators \<Rightarrow> batch \<Rightarrow> py_error + (real \<times> real)" where
  "evaluate_batch self env data =
     bnd (if \<not> packing_samples self then
            (case data of
               PlainBatch chosen_ids c_mask reject_ids r_mask m crl \<Rightarrow>
                 Inr (Some chosen_ids, PlainArgs chosen_ids c_mask reject_ids r_mask, m, crl)
             | PackedBatch _ _ _ _ _ \<Rightarrow> Inl ValueError)
          else
            (case data of
               PackedBatch packed_input_ids packed_attention_masks packed_seq_lens m crls \<Rightarrow>
                 Inr (None, PackedArgs packed_input_ids packed_attention_masks packed_seq_lens,
                      m, crls)
             | PlainBatch _ _ _ _ _ _ \<Rightarrow> Inl ValueError))
       (\<lambda>(ids, fwd, m, crl).
          let return_output = evaluate_return_output self in
          bnd (concatenated_forward self env fwd return_output)
            (\<lambda>(cr, rr, outs).
               bnd (evaluate_loss_args self ids
                      \<lparr>chosen_reward = cr, reject_reward = rr, outputs = outs,
                       chosen_response_len = crl, margin = Some m\<rparr>)
                 (\<lambda>a. bnd (loss_call env (loss_fn self) a)
                    (\<lambda>(preference_loss, prob).
                       bnd (tensor_item prob) (\<lambda>p. Inr (preference_loss, p))))))"

fun evaluate_loop ::
  "trainer \<Rightarrow> collaborators \<Rightarrow> batch list \<Rightarrow> real \<times> real \<Rightarrow> py_error + (real \<times> real)" where
  "evaluate_loop self env [] totals = Inr totals"
| "evaluate_loop self env (data # rest) totals =
     bnd (evaluate_batch self env data)
       (\<lambda>(l, p). evaluate_loop self env rest (fst totals + l, snd totals + p))"

text \<open>
  \<open>evaluate(eval_dataloader, steps)\<close>: the loop runs over the argument, the two means
  divide by the length of \<open>self.eval_dataloader\<close>; the mean loss is returned on rank 0
  only. A dataloader that is \<open>None\<close> has no \<open>__len__\<close>.
\<close>

definition evaluate ::
  "trainer \<Rightarrow> collaborators \<Rightarrow> dataloader option \<Rightarrow> int \<Rightarrow> py_error + real option" where
  "evaluate self env eval_dl steps =
     (case eval_dl of
        None \<Rightarrow> Inl AttributeError
      | Some dl \<Rightarrow>
          bnd (evaluate_loop self env (batches_for dl None) (0, 0))
            (\<lambda>(loss_sum, prob_sum).
               (case eval_dataloader self of
                  None \<Rightarrow> Inl AttributeError
                | Some self_dl \<Rightarrow>
                    let n = length (batches_for self_dl None)
                    in if n = 0 then Inl ZeroDivisionError
                       else let eval_loss_mean = loss_sum / real n;
                                eval_prob_mean = prob_sum / real n
                            in Inr (if is_rank_0 self then Some eval_loss_mean else None))))"

section \<open>Logging, evaluation and checkpoint cadence\<close>

definition py_mod :: "int \<Rightarrow> int \<Rightarrow> py_error + int" where
  "py_mod a b = (if b = 0 then Inl ZeroDivisionError else Inr (a mod b))"

text \<open>\<open>global_step % args.save_steps == 0\<close>, where \<open>save_steps\<close> may be \<open>float("inf")\<close>.\<close>

definition save_due :: "int \<Rightarrow> py_num \<Rightarrow> py_error + bool" where
  "save_due global_step s =
     (case s of
        PyInt n \<Rightarrow> bnd (py_mod global_step n) (\<lambda>m. Inr (m = 0))
      | PyInf \<Rightarrow> Inr (global_step = 0))"

text \<open>The decimal rendering of an integer in an f-string.\<close>

fun str_nat :: "nat \<Rightarrow> string" where
  "str_nat n =
     (if n < 10 then [''0123456789'' ! n]
      else str_nat (n div 10) @ [''0123456789'' ! (n mod 10)])"

definition str_int :: "int \<Rightarrow> string" where
  "str_int i = (if i < 0 then ''-'' @ str_nat (nat (- i)) else str_nat (nat i))"

text \<open>\<open>save_logs_and_checkpoints\<close>: the events it causes, in order.\<close>

definition save_logs_and_checkpoints ::
  "trainer \<Rightarrow> collaborators \<Rightarrow> args \<Rightarrow> int \<Rightarrow> (string \<times> real) list \<Rightarrow> (string \<times> int) list
     \<Rightarrow> py_error + event list" where
  "save_logs_and_checkpoints self env args global_step logs_dict client_states =
     bnd (py_mod global_step (arg_logging_steps args))
       (\<lambda>m1.
          let logged = (if m1 = 0 then [LogMetrics global_step logs_dict] else []) in
          bnd (py_mod global_step (arg_eval_steps args))
            (\<lambda>m2.
               bnd (if m2 = 0
                    then bnd (evaluate self env (eval_dataloader self) global_step)
                           (\<lambda>r. Inr [Evaluated global_step r])
                    else Inr [])
                 (\<lambda>evaluated.
                    bnd (save_due global_step (arg_save_steps args))
                      (\<lambda>due.
                         let tag = ''global_step'' @ str_int global_step;
                             saved = (if due then [SaveCkpt tag client_states] else [])
                         in Inr (logged @ evaluated @ saved)))))"

section \<open>One training micro-batch\<close>

text \<open>\<open>packed_input_ids[:, :n]\<close> and \<open>packed_input_ids[:, n:]\<close>\<close>

definition cols_to :: "nat \<Rightarrow> tensor2 \<Rightarrow> tensor2" where
  "cols_to n t = \<lparr>size0 = size0 t, size1 = min n (size1 t), rows = map (take n) (rows t)\<rparr>"

definition cols_from :: "nat \<Rightarrow> tensor2 \<Rightarrow> tensor2" where
  "cols_from n t = \<lparr>size0 = size0 t, size1 = size1 t - n, rows = map (drop n) (rows t)\<rparr>"

text \<open>
  Lines 158-211: unpack the batch, run the forward pass, compute the loss and update the
  moving averages.
\<close>

definition step_head ::
  "trainer \<Rightarrow> collaborators \<Rightarrow> fit_state \<Rightarrow> batch \<Rightarrow> py_error + (fit_state \<times> iter_vals)" where
  "step_head self env st data =
     (let return_output = fit_return_output self in
      bnd (if \<not> packing_samples self then
             (case data of
                PlainBatch chosen_ids c_mask reject_ids r_mask m crl \<Rightarrow>
                  bnd (concatenated_forward self env
                         (PlainArgs chosen_ids c_mask reject_ids r_mask) return_output)
                    (\<lambda>(cr, rr, outs).
                       Inr (st\<lparr>v_chosen_ids := Some chosen_ids, v_c_mask := Some c_mask,
                               v_reject_ids := Some reject_ids, v_r_mask := Some r_mask\<rparr>,
                            \<lparr>chosen_reward = cr, reject_reward = rr, outputs = outs,
                             chosen_response_len = crl,
                             margin = (if margin_loss self then Some m else None)\<rparr>))
              | PackedBatch _ _ _ _ _ \<Rightarrow> Inl ValueError)
           else
             (case data of
                PackedBatch packed_input_ids packed_attention_masks packed_seq_lens m crls \<Rightarrow>
                  bnd (concatenated_forward self env
                         (PackedArgs packed_input_ids packed_attention_masks packed_seq_lens)
                         return_output)
                    (\<lambda>(cr, rr, outs).
                       Inr (st\<lparr>v_packed_input_ids := Some packed_input_ids,
                               v_packed_attention_masks := Some packed_attention_masks,
                               v_packed_seq_lens := Some packed_seq_lens\<rparr>,
                            \<lparr>chosen_reward = cr, reject_reward = rr, outputs = outs,
                             chosen_response_len = crls,
                             margin = (if margin_loss self then Some m else None)\<rparr>))
              | PlainBatch _ _ _ _ _ _ \<Rightarrow> Inl ValueError))
        (\<lambda>(st1, v).
           bnd (fit_loss_args_first self st1 v)
             (\<lambda>a. bnd (loss_call env (loss_fn self) a)
                (\<lambda>(preference_loss, probs).
                   Inr (ema_update st1 (accuracy probs) probs preference_loss, v)))))"

text \<open>
  Lines 213-265: with \<open>args.add_pretrain_loss\<close> an auxiliary loss is computed for the
  contrastive variant only and then dropped; without it the forward pass is run again, on
  the packed-batch variables.
\<close>

definition step_middle ::
  "trainer \<Rightarrow> collaborators \<Rightarrow> args \<Rightarrow> fit_state \<Rightarrow> iter_vals \<Rightarrow> py_error + iter_vals" where
  "step_middle self env args st v =
     (if arg_add_pretrain_loss args then
        (if is_dpo (ptx_loss_fn self) then
           (if \<not> packing_samples self then
              bnd (load (v_chosen_ids st)) (\<lambda>ci. bnd (load (v_c_mask st)) (\<lambda>cm.
              bnd (load (v_reject_ids st)) (\<lambda>ri. bnd (load (v_r_mask st)) (\<lambda>rm.
              bnd (dpo_ptx env (ptx_loss_fn self) ci cm ri rm) (\<lambda>_. Inr v)))))
            else
              bnd (load (v_chosen_ids st)) (\<lambda>ci. bnd (load (v_c_mask st)) (\<lambda>cm.
              bnd (sft_ptx env (ptx_loss_fn self) ci cm) (\<lambda>_. Inr v))))
         else Inr v)
      else
        bnd (load (v_packed_input_ids st)) (\<lambda>p_ids.
        bnd (load (v_packed_attention_masks st)) (\<lambda>p_mask.
        bnd (load (v_packed_seq_lens st)) (\<lambda>p_lens.
        bnd (concatenated_forward self env (PackedArgs p_ids p_mask p_lens) (fit_return_output self))
          (\<lambda>(cr, rr, outs).
             Inr (v\<lparr>chosen_reward := cr, reject_reward := rr, outputs := outs\<rparr>))))))"

text \<open>
  Lines 293-374: the auxiliary loss and its blend into the total loss. On the packed path
  \<open>chosen_ids\<close> becomes bound to the chosen part of the packed ids.
\<close>

definition step_blend ::
  "trainer \<Rightarrow> collaborators \<Rightarrow> args \<Rightarrow> fit_state \<Rightarrow> real \<Rightarrow> py_error + (fit_state \<times> real)" where
  "step_blend self env args st preference_loss =
     (if arg_add_pretrain_loss args then
        bnd (if is_dpo (ptx_loss_fn self) then
               (if \<not> packing_samples self then
                  bnd (load (v_chosen_ids st)) (\<lambda>ci. bnd (load (v_c_mask st)) (\<lambda>cm.
                  bnd (load (v_reject_ids st)) (\<lambda>ri. bnd (load (v_r_mask st)) (\<lambda>rm.
                  bnd (dpo_ptx env (ptx_loss_fn self) ci cm ri rm) (\<lambda>x. Inr (st, x))))))
                else
                  bnd (load (v_packed_seq_lens st)) (\<lambda>p_lens.
                    let num_sequences = length p_lens;
                        num_chosen = num_sequences div 2;
                        chosen_seq_lens = take num_chosen p_lens;
                        chosen_total_len = sum_list chosen_seq_lens
                    in bnd (load (v_packed_input_ids st)) (\<lambda>p_ids.
                       bnd (load (v_packed_attention_masks st)) (\<lambda>p_mask.
                         let chosen_ids = cols_to chosen_total_len p_ids;
                             chosen_attn_mask = cols_to chosen_total_len p_mask;
                             rejected_ids = cols_from chosen_total_len p_ids;
                             rejected_attn_mask = cols_from chosen_total_len p_mask
                         in bnd (dpo_ptx env (ptx_loss_fn self) chosen_ids chosen_attn_mask
                                   rejected_ids rejected_attn_mask)
                              (\<lambda>x. Inr (st\<lparr>v_chosen_ids := Some chosen_ids\<rparr>, x))))))
             else
               (if \<not> packing_samples self then
                  bnd (load (v_chosen_ids st)) (\<lambda>ci. bnd (load (v_c_mask st)) (\<lambda>cm.
                  bnd (sft_ptx env (ptx_loss_fn self) ci cm) (\<lambda>x. Inr (st, x))))
                else
                  bnd (load (v_packed_seq_lens st)) (\<lambda>p_lens.
                    let num_sequences = length p_lens;
                        num_chosen = num_sequences div 2;
                        chosen_seq_lens = take num_chosen p_lens;
                        chosen_total_len = sum_list chosen_seq_lens
                    in bnd (load (v_packed_input_ids st)) (\<lambda>p_ids.
                       bnd (load (v_packed_attention_masks st)) (\<lambda>p_mask.
                         let chosen_ids = cols_to chosen_total_len p_ids;
                             chosen_attn_mask = cols_to chosen_total_len p_mask
                         in bnd (sft_ptx env (ptx_loss_fn self) chosen_ids chosen_attn_mask)
                              (\<lambda>x. Inr (st\<lparr>v_chosen_ids := Some chosen_ids\<rparr>, x)))))))
          (\<lambda>(st1, chosen_reward_ptx_loss).
             Inr (st1, (1 - arg_ptx_loss_coef args) * preference_loss
                         + chosen_reward_ptx_loss * arg_ptx_loss_coef args))
      else Inr (st, preference_loss))"

text \<open>Lines 382-390: the metrics dictionary of one micro-batch.\<close>

definition logs_dict :: "collaborators \<Rightarrow> fit_state \<Rightarrow> real \<Rightarrow> real list \<Rightarrow> real \<Rightarrow> (string \<times> real) list" where
  "logs_dict env st preference_loss probs acc =
     [(''loss'', preference_loss), (''loss_mean'', loss_mean st),
      (''lr'', get_last_lr env (step st)), (''acc'', acc),
      (''acc_mean'', acc_mean st), (''probs'', tensor_mean probs),
      (''prob_mean'', prob_mean st)]"

text \<open>
  Lines 376-398: the backward pass and the call of the strategy's optimizer step, on
  every micro-batch; then, when \<open>step\<close> is a multiple of the accumulation factor, the
  cadence of logging, evaluation and checkpoints; then the step counter.
\<close>

definition step_sync ::
  "trainer \<Rightarrow> collaborators \<Rightarrow> args \<Rightarrow> fit_state \<Rightarrow> real \<Rightarrow> real \<Rightarrow> real list \<Rightarrow> real
     \<Rightarrow> py_error + fit_state" where
  "step_sync self env args st loss preference_loss probs acc =
     (let st1 = st\<lparr>events := events st @ [Backward loss, OptimizerStep]\<rparr> in
      bnd (py_mod (step st1) (accumulated_gradient self))
        (\<lambda>r. bnd (if r = 0 then
                     (let global_step = step st1 div accumulated_gradient self;
                          client_states =
                            [(''consumed_samples'', global_step * arg_train_batch_size args)]
                      in bnd (save_logs_and_checkpoints self env args global_step
                                (logs_dict env st1 preference_loss probs acc) client_states)
                           (\<lambda>evs. Inr (st1\<lparr>events := events st1 @ evs\<rparr>)))
                   else Inr st1)
                (\<lambda>st2. Inr (st2\<lparr>step := step st2 + 1\<rparr>))))"

text \<open>
  Lines 213-399: everything after the first update of the moving averages. The cast of
  the rewards to float32 under \<open>compute_fp32_loss\<close> (lines 267-269) leaves the modelled
  real values as they are.
\<close>

definition step_tail ::
  "trainer \<Rightarrow> collaborators \<Rightarrow> args \<Rightarrow> fit_state \<times> iter_vals \<Rightarrow> py_error + fit_state" where
  "step_tail self env args sv =
     (case sv of (st, v) \<Rightarrow>
        bnd (step_middle self env args st v)
          (\<lambda>v2. bnd (fit_loss_args_second self st v2)
             (\<lambda>a. bnd (loss_call env (loss_fn self) a)
                (\<lambda>(preference_loss, probs).
                   let acc = accuracy probs;
                       st2 = ema_update st acc probs preference_loss
                   in bnd (step_blend self env args st2 preference_loss)
                        (\<lambda>(st3, loss).
                           step_sync self env args st3 loss preference_loss probs acc)))))"

definition train_step ::
  "trainer \<Rightarrow> collaborators \<Rightarrow> args \<Rightarrow> fit_state \<Rightarrow> batch \<Rightarrow> py_error + fit_state" where
  "train_step self env args st data = bnd (step_head self env st data) (step_tail self env args)"

section \<open>The training loop\<close>

fun train_batches ::
  "trainer \<Rightarrow> collaborators \<Rightarrow> args \<Rightarrow> fit_state \<Rightarrow> batch list \<Rightarrow> py_error + fit_state" where
  "train_batches self env args st [] = Inr st"
| "train_batches self env args st (data # rest) =
     bnd (train_step self env args st data) (\<lambda>st'. train_batches self env args st' rest)"

text \<open>
  Lines 140-155: the start of an epoch. The sampler is told the epoch and the resume
  offset (zero after the resumed epoch) when it is a \<open>GroupDistributedSampler\<close>; the
  three moving averages are set to zero.
\<close>

definition sampler_offset :: "int \<Rightarrow> int \<Rightarrow> int \<Rightarrow> int" where
  "sampler_offset start_epoch consumed_samples epoch =
     (if epoch > start_epoch then 0 else consumed_samples)"

definition epoch_begin :: "trainer \<Rightarrow> int \<Rightarrow> int \<Rightarrow> fit_state \<Rightarrow> int \<Rightarrow> fit_state" where
  "epoch_begin self start_epoch consumed_samples st epoch =
     (let st1 =
            (if is_group_sampler (train_dataloader self)
             then st\<lparr>events := events st
                        @ [SetEpoch epoch (sampler_offset start_epoch consumed_samples epoch)]\<rparr>
             else st)
      in st1\<lparr>acc_mean := 0, prob_mean := 0, loss_mean := 0\<rparr>)"

definition epoch_batches :: "trainer \<Rightarrow> int \<Rightarrow> int \<Rightarrow> int \<Rightarrow> batch list" where
  "epoch_batches self start_epoch consumed_samples epoch =
     batches_for (train_dataloader self)
       (if is_group_sampler (train_dataloader self)
        then Some (epoch, sampler_offset start_epoch consumed_samples epoch)
        else None)"

definition train_epoch ::
  "trainer \<Rightarrow> collaborators \<Rightarrow> args \<Rightarrow> int \<Rightarrow> int \<Rightarrow> fit_state \<Rightarrow> int \<Rightarrow> py_error + fit_state" where
  "train_epoch self env args start_epoch consumed_samples st epoch =
     train_batches self env args (epoch_begin self start_epoch consumed_samples st epoch)
       (epoch_batches self start_epoch consumed_samples epoch)"

fun train_epochs ::
  "trainer \<Rightarrow> collaborators \<Rightarrow> args \<Rightarrow> int \<Rightarrow> int \<Rightarrow> fit_state \<Rightarrow> int list
     \<Rightarrow> py_error + fit_state" where
  "train_epochs self env args start_epoch consumed_samples st [] = Inr st"
| "train_epochs self env args start_epoch consumed_samples st (epoch # rest) =
     bnd (train_epoch self env args start_epoch consumed_samples st epoch)
       (\<lambda>st'. train_epochs self env args start_epoch consumed_samples st' rest)"

text \<open>Lines 133-136: step, start epoch and intra-epoch offset from \<open>consumed_samples\<close>.\<close>

definition restore :: "int \<Rightarrow> int \<Rightarrow> int \<Rightarrow> int \<Rightarrow> py_error + (int \<times> int \<times> int)" where
  "restore consumed_samples train_batch_size accumulated_grad num_update_steps_per_epoch =
     (if train_batch_size = 0 then Inl ZeroDivisionError
      else
        let step0 = consumed_samples div train_batch_size * accumulated_grad + 1 in
        if num_update_steps_per_epoch = 0 then Inl ZeroDivisionError
        else
          let start_epoch = consumed_samples div train_batch_size div num_update_steps_per_epoch in
          if num_update_steps_per_epoch * train_batch_size = 0 then Inl ZeroDivisionError
          else Inr (step0, start_epoch,
                    consumed_samples mod (num_update_steps_per_epoch * train_batch_size)))"

definition initial_state :: "int \<Rightarrow> fit_state" where
  "initial_state step0 =
     \<lparr>step = step0, acc_mean = 0, prob_mean = 0, loss_mean = 0,
      v_chosen_ids = None, v_c_mask = None, v_reject_ids = None, v_r_mask = None,
      v_packed_input_ids = None, v_packed_attention_masks = None, v_packed_seq_lens = None,
      events = []\<rparr>"

text \<open>Lines 126-131: the defaults of the evaluation and checkpoint cadence.\<close>

definition fit_args :: "args \<Rightarrow> int \<Rightarrow> args" where
  "fit_args args num_update_steps_per_epoch =
     (let args1 = (if arg_eval_steps args = - 1
                   then args\<lparr>arg_eval_steps := num_update_steps_per_epoch\<rparr> else args)
      in if arg_save_steps args1 = PyInt (- 1) then args1\<lparr>arg_save_steps := PyInf\<rparr> else args1)"

definition fit :: "trainer \<Rightarrow> collaborators \<Rightarrow> args \<Rightarrow> int \<Rightarrow> int \<Rightarrow> py_error + fit_state" where
  "fit self env args consumed_samples num_update_steps_per_epoch =
     (let args' = fit_args args num_update_steps_per_epoch in
      bnd (restore consumed_samples (arg_train_batch_size args') (accumulated_gradient self)
             num_update_steps_per_epoch)
        (\<lambda>(step0, start_epoch, consumed).
           train_epochs self env args' start_epoch consumed (initial_state step0)
             [start_epoch..epochs self - 1]))"

section \<open>Sample inputs\<close>

text \<open>Concrete inputs on which the properties below are exercised.\<close>

definition ids_a :: tensor2 where
  "ids_a = \<lparr>size0 = 1, size1 = 2, rows = [[5, 6]]\<rparr>"

definition ids_b :: tensor2 where
  "ids_b = \<lparr>size0 = 1, size1 = 3, rows = [[7, 8, 9]]\<rparr>"

definition mask_a :: tensor2 where
  "mask_a = \<lparr>size0 = 1, size1 = 2, rows = [[1, 1]]\<rparr>"

definition mask_b :: tensor2 where
  "mask_b = \<lparr>size0 = 1, size1 = 3, rows = [[1, 1, 1]]\<rparr>"

definition packed_ids :: tensor2 where
  "packed_ids = \<lparr>size0 = 1, size1 = 5, rows = [[5, 6, 7, 8, 9]]\<rparr>"

definition packed_mask :: tensor2 where
  "packed_mask = \<lparr>size0 = 1, size1 = 5, rows = [[1, 1, 1, 1, 1]]\<rparr>"

definition sample_hidden :: hidden_states where
  "sample_hidden = \<lparr>hs_size1 = 3, hs_rows = [[[1], [2], [3]], [[4], [5], [6]]]\<rparr>"

text \<open>
  A model that scores every row 1 and hands out \<open>sample_hidden\<close> when asked for its
  outputs, a loss of 1 with probability 1 for the only pair, auxiliary losses 2 and 3.
\<close>

definition sample_env :: collaborators where
  "sample_env =
     \<lparr>custom_forward =
        (\<lambda>input_ids attn return_output ring lens.
           Inr (case lens of None \<Rightarrow> replicate (size0 input_ids) [1]
                           | Some l \<Rightarrow> replicate (length l) [1],
                if return_output then Some sample_hidden else None)),
      loss_call = (\<lambda>lf a. Inr (1, [1])),
      sft_ptx = (\<lambda>pf a b. Inr 2),
      dpo_ptx = (\<lambda>pf a b c d. Inr 3),
      get_last_lr = (\<lambda>i. 0)\<rparr>"

definition plain_batch :: batch where
  "plain_batch = PlainBatch ids_a mask_a ids_b mask_b [0] [1]"

definition packed_batch :: batch where
  "packed_batch = PackedBatch packed_ids packed_mask [2, 3] [0] [1]"

definition plain_loader :: dataloader where
  "plain_loader = \<lparr>is_group_sampler = True, batches_for = (\<lambda>s. [plain_batch])\<rparr>"

definition packed_loader :: dataloader where
  "packed_loader = \<lparr>is_group_sampler = True, batches_for = (\<lambda>s. [packed_batch])\<rparr>"

definition empty_loader :: dataloader where
  "empty_loader = \<lparr>is_group_sampler = False, batches_for = (\<lambda>s. [])\<rparr>"

definition sample_args :: args where
  "sample_args =
     \<lparr>arg_eval_steps = 1000, arg_save_steps = PyInt 1, arg_logging_steps = 1,
      arg_train_batch_size = 128, arg_add_pretrain_loss = False, arg_ptx_loss_coef = 0.1,
      arg_margin_loss = False, arg_compute_fp32_loss = False, arg_packing_samples = False,
      arg_add_prompt_head = False, arg_reward_scaler_beta = 2\<rparr>"

definition plain_trainer :: trainer where
  "plain_trainer =
     \<lparr>epochs = 2, loss_fn = PairWiseLoss 0.1, ptx_loss_fn = SFTSumLoss 2, margin_loss = False,
      compute_fp32_loss = False, packing_samples = False, add_pretrain_loss = False,
      train_dataloader = plain_loader, eval_dataloader = Some empty_loader,
      accumulated_gradient = 1, is_rank_0 = True, ring_attn_group = None, pad_token_id = 0\<rparr>"

definition packed_trainer :: trainer where
  "packed_trainer = plain_trainer\<lparr>packing_samples := True, train_dataloader := packed_loader\<rparr>"

text \<open>
  The trainer \<open>__init__\<close> builds for general preference, dimension 4, with the prompt
  head and the margin loss on: its loss is the mixture-of-experts one.
\<close>

definition moe_trainer :: trainer where
  "moe_trainer =
     plain_trainer\<lparr>loss_fn := HighDimGeneralPreferenceMoELoss 4 0.1, margin_loss := True\<rparr>"

text \<open>The values a micro-batch on \<open>plain_batch\<close> holds after a forward pass with outputs.\<close>

definition sample_vals :: iter_vals where
  "sample_vals =
     \<lparr>chosen_reward = [[1]], reject_reward = [[1]], outputs = Some sample_hidden,
      chosen_response_len = [1], margin = Some [0]\<rparr>"

text \<open>The packed trainer with two micro-batches per optimizer update.\<close>

definition accum_trainer :: trainer where
  "accum_trainer = packed_trainer\<lparr>accumulated_gradient := 2\<rparr>"

text \<open>
  The state the packed trainer reaches from \<open>initial_state 1\<close> after one micro-batch on
  \<open>packed_batch\<close>, and after the epoch that consists of that micro-batch.
\<close>

definition after_first_step :: fit_state where
  "after_first_step =
     \<lparr>step = 2, acc_mean = 19/100, prob_mean = 19/100, loss_mean = 19/100,
      v_chosen_ids = None, v_c_mask = None, v_reject_ids = None, v_r_mask = None,
      v_packed_input_ids = Some packed_ids, v_packed_attention_masks = Some packed_mask,
      v_packed_seq_lens = Some [2, 3],
      events = [Backward 1, OptimizerStep,
                LogMetrics 1 [(''loss'', 1), (''loss_mean'', 19/100), (''lr'', 0), (''acc'', 1),
                              (''acc_mean'', 19/100), (''probs'', 1), (''prob_mean'', 19/100)],
                SaveCkpt ''global_step1'' [(''consumed_samples'', 128)]]\<rparr>"

definition after_epoch_0 :: fit_state where
  "after_epoch_0 = after_first_step\<lparr>events := SetEpoch 0 0 # events after_first_step\<rparr>"

text \<open>The fifth micro-batch of the packed trainer: the state before it and after it.\<close>

definition before_step_5 :: fit_state where
  "before_step_5 = (initial_state 5)\<lparr>events := [SetEpoch 0 0]\<rparr>"

definition after_step_5 :: fit_state where
  "after_step_5 =
     \<lparr>step = 6, acc_mean = 19/100, prob_mean = 19/100, loss_mean = 19/100,
      v_chosen_ids = None, v_c_mask = None, v_reject_ids = None, v_r_mask = None,
      v_packed_input_ids = Some packed_ids, v_packed_attention_masks = Some packed_mask,
      v_packed_seq_lens = Some [2, 3],
      events = [SetEpoch 0 0, Backward 1, OptimizerStep,
                LogMetrics 5 [(''loss'', 1), (''loss_mean'', 19/100), (''lr'', 0), (''acc'', 1),
                              (''acc_mean'', 19/100), (''probs'', 1), (''prob_mean'', 19/100)],
                SaveCkpt ''global_step5'' [(''consumed_samples'', 640)]]\<rparr>"

text \<open>
  The state in which \<open>fit\<close> ends for the packed trainer resumed at
  \<open>consumed_samples = 640\<close> with 50 update steps per epoch, and the state of the packed
  trainer after two micro-batches from \<open>initial_state 1\<close>.
\<close>

definition after_resumed_fit :: fit_state where
  "after_resumed_fit =
     \<lparr>step = 8, acc_mean = 19/100, prob_mean = 19/100, loss_mean = 19/100,
      v_chosen_ids = None, v_c_mask = None, v_reject_ids = None, v_r_mask = None,
      v_packed_input_ids = Some packed_ids, v_packed_attention_masks = Some packed_mask,
      v_packed_seq_lens = Some [2, 3],
      events = [SetEpoch 0 640, Backward 1, OptimizerStep,
                LogMetrics 6 [(''loss'', 1), (''loss_mean'', 19/100), (''lr'', 0), (''acc'', 1),
                              (''acc_mean'', 19/100), (''probs'', 1), (''prob_mean'', 19/100)],
                SaveCkpt ''global_step6'' [(''consumed_samples'', 768)],
                SetEpoch 1 0, Backward 1, OptimizerStep,
                LogMetrics 7 [(''loss'', 1), (''loss_mean'', 19/100), (''lr'', 0), (''acc'', 1),
                              (''acc_mean'', 19/100), (''probs'', 1), (''prob_mean'', 19/100)],
                SaveCkpt ''global_step7'' [(''consumed_samples'', 896)]]\<rparr>"

definition after_two_steps :: fit_state where
  "after_two_steps =
     \<lparr>step = 3, acc_mean = 3439/10000, prob_mean = 3439/10000, loss_mean = 3439/10000,
      v_chosen_ids = None, v_c_mask = None, v_reject_ids = None, v_r_mask = None,
      v_packed_input_ids = Some packed_ids, v_packed_attention_masks = Some packed_mask,
      v_packed_seq_lens = Some [2, 3],
      events = [Backward 1, OptimizerStep,
                LogMetrics 1 [(''loss'', 1), (''loss_mean'', 19/100), (''lr'', 0), (''acc'', 1),
                              (''acc_mean'', 19/100), (''probs'', 1), (''prob_mean'', 19/100)],
                SaveCkpt ''global_step1'' [(''consumed_samples'', 128)],
                Backward 1, OptimizerStep,
                LogMetrics 2 [(''loss'', 1), (''loss_mean'', 3439/10000), (''lr'', 0), (''acc'', 1),
                              (''acc_mean'', 3439/10000), (''probs'', 1),
                              (''prob_mean'', 3439/10000)],
                SaveCkpt ''global_step2'' [(''consumed_samples'', 256)]]\<rparr>"

text \<open>A trainer whose own validation dataloader yields a batch.\<close>

definition other_eval_trainer :: trainer where
  "other_eval_trainer = plain_trainer\<lparr>eval_dataloader := Some plain_loader\<rparr>"

section \<open>The strategy's optimizer step\<close>

text \<open>
  Modelled from the spec: \<open>strategy.optimizer_step\<close>, a method of the distributed
  strategy, which is not among the source files. The trainer calls it on every
  micro-batch (line 379); the spec (section 4.4 and the glossary) has an optimizer step
  fire only every \<open>accumulated_gradient\<close> micro-batches, with
  \<open>global_step = step // accumulated_gradient\<close> the count of completed optimizer
  updates. So the call made at micro-batch \<open>step\<close> applies an update exactly when
  \<open>step\<close> is a multiple of the accumulation factor.
\<close>

definition optimizer_update_applied :: "int \<Rightarrow> int \<Rightarrow> bool" where
  "optimizer_update_applied accumulated_grad step_no = (step_no mod accumulated_grad = 0)"

section \<open>Vocabulary of the properties\<close>

text \<open>An event of the cadence block that is keyed by the optimizer-update count \<open>g\<close>.\<close>

definition cadence_event :: "int \<Rightarrow> event \<Rightarrow> bool" where
  "cadence_event g ev =
     (case ev of
        LogMetrics g' _ \<Rightarrow> g' = g
      | Evaluated g' _ \<Rightarrow> g' = g
      | SaveCkpt tag _ \<Rightarrow> tag = ''global_step'' @ str_int g
      | _ \<Rightarrow> False)"

text \<open>The \<open>set_epoch(epoch, consumed_samples)\<close> calls among the events, in order.\<close>

definition set_epoch_calls :: "event list \<Rightarrow> (int \<times> int) list" where
  "set_epoch_calls evs =
     List.map_filter (\<lambda>ev. case ev of SetEpoch e c \<Rightarrow> Some (e, c) | _ \<Rightarrow> None) evs"

text \<open>The number a string of decimal digits denotes.\<close>

definition digit_val :: "char \<Rightarrow> nat" where
  "digit_val c = of_char c - 48"

definition dec_value :: "string \<Rightarrow> nat" where
  "dec_value s = foldl (\<lambda>a c. 10 * a + digit_val c) 0 s"

section \<open>Properties\<close>

lemma bnd_Inl [simp]: "bnd (Inl e) f = Inl e"
  by (simp add: bnd_def)

lemma bnd_Inr [simp]: "bnd (Inr x) f = f x"
  by (simp add: bnd_def)

lemma bnd_eq_Inr: "bnd m f = Inr y \<longleftrightarrow> (\<exists>x. m = Inr x \<and> f x = Inr y)"
  by (cases m) simp_all

lemma load_None [simp]: "load None = Inl NameError"
  by (simp add: load_def)

lemma load_Some [simp]: "load (Some x) = Inr x"
  by (simp add: load_def)

subsection \<open>Padding\<close>

lemma map2_replicate_left:
  "map2 f (replicate (length ys) x) ys = map (f x) ys"
  by (induction ys) simp_all

lemma rows_pad_below:
  assumes "length (rows t) = size0 t" and "int (size1 t) < n"
  shows "rows (pad_to_length t n v) = map (\<lambda>r. replicate (nat n - size1 t) v @ r) (rows t)"
proof -
  have k: "nat (n - int (size1 t)) = nat n - size1 t"
    by simp
  have "rows (pad_to_length t n v)
          = map2 (@) (replicate (length (rows t)) (replicate (nat n - size1 t) v)) (rows t)"
    using assms by (simp add: pad_to_length_def cat_last_def filled_def k)
  then show ?thesis
    by (simp only: map2_replicate_left)
qed

lemma size_pad_below:
  assumes "int (size1 t) < n"
  shows "size1 (pad_to_length t n v) = nat n" and "size0 (pad_to_length t n v) = size0 t"
  using assms by (simp_all add: pad_to_length_def cat_last_def filled_def)

lemma pad_twice: "pad_to_length (pad_to_length t n v) n v = pad_to_length t n v"
proof (cases "int (size1 t) \<ge> n")
  case True
  then show ?thesis by (simp add: pad_to_length_def)
next
  case False
  then have "int (size1 (pad_to_length t n v)) \<ge> n"
    by (simp add: size_pad_below)
  then show ?thesis
    by (subst pad_to_length_def) simp
qed

text \<open>
  Claim C10. \<open>pad_to_length\<close> returns a tensor whose padded dimension is at or above the
  target unchanged; a shorter one comes back with the padded dimension exactly at the
  target, every row being the fill value repeated on the left followed by the original
  row; padding is idempotent.
\<close>

theorem pad_to_length_idempotent:
  "wf_tensor t \<Longrightarrow>
     (n \<le> int (size1 t) \<longrightarrow> pad_to_length t n v = t) \<and>
     (int (size1 t) < n \<longrightarrow>
        size1 (pad_to_length t n v) = nat n \<and>
        size0 (pad_to_length t n v) = size0 t \<and>
        rows (pad_to_length t n v) = map (\<lambda>r. replicate (nat n - size1 t) v @ r) (rows t) \<and>
        wf_tensor (pad_to_length t n v)) \<and>
     pad_to_length (pad_to_length t n v) n v = pad_to_length t n v"
proof -
  assume wf: "wf_tensor t"
  have same: "n \<le> int (size1 t) \<longrightarrow> pad_to_length t n v = t"
    by (simp add: pad_to_length_def)
  have below: "int (size1 t) < n \<longrightarrow>
        size1 (pad_to_length t n v) = nat n \<and>
        size0 (pad_to_length t n v) = size0 t \<and>
        rows (pad_to_length t n v) = map (\<lambda>r. replicate (nat n - size1 t) v @ r) (rows t) \<and>
        wf_tensor (pad_to_length t n v)"
  proof
    assume lt: "int (size1 t) < n"
    have len: "length (rows t) = size0 t"
      using wf by (simp add: wf_tensor_def)
    have r: "rows (pad_to_length t n v) = map (\<lambda>r. replicate (nat n - size1 t) v @ r) (rows t)"
      using len lt by (rule rows_pad_below)
    have "list_all (\<lambda>r. length r = size1 t) (rows t)"
      using wf by (simp add: wf_tensor_def)
    then have "list_all (\<lambda>r. length r = nat n) (map (\<lambda>r. replicate (nat n - size1 t) v @ r) (rows t))"
      using lt by (auto simp: list_all_iff)
    then have "wf_tensor (pad_to_length t n v)"
      using len lt r by (simp add: wf_tensor_def size_pad_below)
    then show "size1 (pad_to_length t n v) = nat n \<and>
        size0 (pad_to_length t n v) = size0 t \<and>
        rows (pad_to_length t n v) = map (\<lambda>r. replicate (nat n - size1 t) v @ r) (rows t) \<and>
        wf_tensor (pad_to_length t n v)"
      using lt r by (simp add: size_pad_below)
  qed
  show ?thesis
    using same below pad_twice by blast
qed

theorem pad_to_length_idempotent_witness:
  "wf_tensor ids_a \<and> pad_to_length ids_a 2 0 = ids_a \<and> pad_to_length ids_a 1 0 = ids_a \<and>
   pad_to_length ids_a 3 0 = \<lparr>size0 = 1, size1 = 3, rows = [[0, 5, 6]]\<rparr> \<and>
   pad_to_length (pad_to_length ids_a 3 0) 3 0 = pad_to_length ids_a 3 0"
proof -
  have wf: "wf_tensor ids_a"
    by (simp add: wf_tensor_def ids_a_def)
  have r: "rows ids_a = [[5, 6]]" and s: "size1 ids_a = 2" "size0 ids_a = 1"
    by (simp_all add: ids_a_def)
  from pad_to_length_idempotent [OF wf, of 2 0] have a: "pad_to_length ids_a 2 0 = ids_a"
    by (simp add: s)
  from pad_to_length_idempotent [OF wf, of 1 0] have b: "pad_to_length ids_a 1 0 = ids_a"
    by (simp add: s)
  from pad_to_length_idempotent [OF wf, of 3 0]
  have c: "size1 (pad_to_length ids_a 3 0) = 3" "size0 (pad_to_length ids_a 3 0) = 1"
      "rows (pad_to_length ids_a 3 0) = [[0, 5, 6]]"
    and d: "pad_to_length (pad_to_length ids_a 3 0) 3 0 = pad_to_length ids_a 3 0"
    by (simp_all add: s r)
  have "pad_to_length ids_a 3 0 = \<lparr>size0 = 1, size1 = 3, rows = [[0, 5, 6]]\<rparr>"
    using c by (cases "pad_to_length ids_a 3 0") simp
  with wf a b d show ?thesis
    by simp
qed

subsection \<open>The packed split\<close>

text \<open>
  Claim C9. On the packed path the rewards are split at \<open>len(packed_seq_lens) // 2\<close>:
  rows below the boundary are the chosen rewards, rows from the boundary up to the number
  of sequences the rejected ones. The boundary is a function of the length of the
  sequence-lengths list alone, whatever the ids, the mask and the values; when the model
  returns one row per sequence the two parts make up all rows, and for an even count
  they are of equal size.
\<close>

theorem packed_split_boundary:
  "packing_samples self \<Longrightarrow>
   custom_forward env ids attn return_output (ring_attn_group self) (Some lens) = Inr (vals, outs) \<Longrightarrow>
     concatenated_forward self env (PackedArgs ids attn lens) return_output =
       Inr (take (length lens div 2) vals,
            drop (length lens div 2) (take (length lens) vals), outs) \<and>
     (length vals = length lens \<longrightarrow>
        take (length lens div 2) vals @ drop (length lens div 2) (take (length lens) vals) = vals \<and>
        length (take (length lens div 2) vals) = length lens div 2 \<and>
        (even (length lens) \<longrightarrow>
           length (drop (length lens div 2) (take (length lens) vals)) = length lens div 2))"
  by (auto simp: concatenated_forward_def Let_def)

theorem packed_split_boundary_witness:
  "packing_samples packed_trainer \<and>
   custom_forward sample_env packed_ids packed_mask False (ring_attn_group packed_trainer)
     (Some [10, 12, 10, 12]) = Inr ([[1], [1], [1], [1]], None) \<and>
   concatenated_forward packed_trainer sample_env
     (PackedArgs packed_ids packed_mask [10, 12, 10, 12]) False =
       Inr ([[1], [1]], [[1], [1]], None)"
proof -
  have p: "packing_samples packed_trainer"
    by (simp add: packed_trainer_def)
  have f: "custom_forward sample_env packed_ids packed_mask False (ring_attn_group packed_trainer)
     (Some [10, 12, 10, 12]) = Inr ([[1], [1], [1], [1]], None)"
    by (simp add: sample_env_def)
  have n: "length [10, 12, 10, 12 :: nat] = 4"
    by simp
  from packed_split_boundary [OF p f]
  have "concatenated_forward packed_trainer sample_env
          (PackedArgs packed_ids packed_mask [10, 12, 10, 12]) False =
        Inr (take 2 [[1], [1], [1], [1]], drop 2 (take 4 [[1], [1], [1], [1]]), None)"
    unfolding n by simp
  then show ?thesis
    using p f by simp
qed

subsection \<open>Loss dispatch\<close>

text \<open>
  Claim C1. Construction selects the loss from \<open>(is_general_preference, value_head_dim,
  add_prompt_head)\<close>: the pairwise log-sigmoid loss without general preference; the
  general-preference loss for dimension 2 without prompt head; otherwise, for an even
  dimension, the high-dimensional loss, in its mixture-of-experts form when the prompt
  head is on; and construction fails with an assertion error for an odd dimension under
  general preference. Exactly one of the five cases applies to every combination.
\<close>

theorem loss_dispatch:
  "(\<not> g \<longrightarrow>
      (\<exists>tr. trainer_init sa ag r0 ring tdl edl pad me g tau d pk = Inr tr \<and>
            loss_fn tr = PairWiseLoss tau)) \<and>
   (g \<and> d = 2 \<and> \<not> arg_add_prompt_head sa \<longrightarrow>
      (\<exists>tr. trainer_init sa ag r0 ring tdl edl pad me g tau d pk = Inr tr \<and>
            loss_fn tr = GeneralPreferenceLoss tau)) \<and>
   (g \<and> even d \<and> arg_add_prompt_head sa \<longrightarrow>
      (\<exists>tr. trainer_init sa ag r0 ring tdl edl pad me g tau d pk = Inr tr \<and>
            loss_fn tr = HighDimGeneralPreferenceMoELoss d tau)) \<and>
   (g \<and> even d \<and> d \<noteq> 2 \<and> \<not> arg_add_prompt_head sa \<longrightarrow>
      (\<exists>tr. trainer_init sa ag r0 ring tdl edl pad me g tau d pk = Inr tr \<and>
            loss_fn tr = HighDimGeneralPreferenceLoss tau d)) \<and>
   (g \<and> odd d \<longrightarrow> d \<noteq> 2 \<and> trainer_init sa ag r0 ring tdl edl pad me g tau d pk = Inl AssertionError)"
  by (auto simp: trainer_init_def select_loss_fn_def even_iff_mod_2_eq_zero)

theorem loss_dispatch_witness:
  "(\<exists>tr. trainer_init sample_args 1 True None plain_loader None 0 1 False 0.1 2 False = Inr tr \<and>
         loss_fn tr = PairWiseLoss 0.1) \<and>
   (\<exists>tr. trainer_init sample_args 1 True None plain_loader None 0 1 True 0.1 2 False = Inr tr \<and>
         loss_fn tr = GeneralPreferenceLoss 0.1) \<and>
   (\<exists>tr. trainer_init (sample_args\<lparr>arg_add_prompt_head := True\<rparr>) 1 True None plain_loader None 0 1
            True 0.1 2 False = Inr tr \<and>
         loss_fn tr = HighDimGeneralPreferenceMoELoss 2 0.1) \<and>
   (\<exists>tr. trainer_init sample_args 1 True None plain_loader None 0 1 True 0.1 4 False = Inr tr \<and>
         loss_fn tr = HighDimGeneralPreferenceLoss 0.1 4) \<and>
   trainer_init sample_args 1 True None plain_loader None 0 1 True 0.1 3 False = Inl AssertionError"
proof -
  have np: "\<not> arg_add_prompt_head sample_args"
    by (simp add: sample_args_def)
  have a: "\<exists>tr. trainer_init sample_args 1 True None plain_loader None 0 1 False 0.1 2 False = Inr tr \<and>
         loss_fn tr = PairWiseLoss 0.1"
    using loss_dispatch [of False sample_args 1 True None plain_loader None 0 1 "0.1" 2 False]
    by simp
  have b: "\<exists>tr. trainer_init sample_args 1 True None plain_loader None 0 1 True 0.1 2 False = Inr tr \<and>
         loss_fn tr = GeneralPreferenceLoss 0.1"
    using loss_dispatch [of True sample_args 1 True None plain_loader None 0 1 "0.1" 2 False] np
    by simp
  have c: "\<exists>tr. trainer_init (sample_args\<lparr>arg_add_prompt_head := True\<rparr>) 1 True None plain_loader
            None 0 1 True 0.1 2 False = Inr tr \<and>
         loss_fn tr = HighDimGeneralPreferenceMoELoss 2 0.1"
    using loss_dispatch [of True "sample_args\<lparr>arg_add_prompt_head := True\<rparr>" 1 True None
        plain_loader None 0 1 "0.1" 2 False]
    by simp
  have d: "\<exists>tr. trainer_init sample_args 1 True None plain_loader None 0 1 True 0.1 4 False = Inr tr \<and>
         loss_fn tr = HighDimGeneralPreferenceLoss 0.1 4"
    using loss_dispatch [of True sample_args 1 True None plain_loader None 0 1 "0.1" 4 False] np
    by simp
  have e: "trainer_init sample_args 1 True None plain_loader None 0 1 True 0.1 3 False
             = Inl AssertionError"
    using loss_dispatch [of True sample_args 1 True None plain_loader None 0 1 "0.1" 3 False]
    by simp
  from a b c d e show ?thesis
    by blast
qed

subsection \<open>Evaluation of an empty validation set\<close>

text \<open>
  Claim C8, as stated, fails: evaluating the empty validation dataloader of
  \<open>plain_trainer\<close> raises a division by zero, the loop having run over no batch.
\<close>

theorem evaluate_empty_loader_raises:
  "batches_for empty_loader None = [] \<and>
   evaluate plain_trainer sample_env (eval_dataloader plain_trainer) 0 = Inl ZeroDivisionError"
  by (simp add: evaluate_def plain_trainer_def empty_loader_def)

text \<open>
  Claim C8, amended. \<open>evaluate\<close> has no guard against an empty validation set. Called
  with an empty dataloader it runs no batch and then divides the sums by the length of
  the trainer's own \<open>eval_dataloader\<close>: it raises ZeroDivisionError when that one is
  empty, as it is whenever the argument is the trainer's own dataloader, which is what
  \<open>save_logs_and_checkpoints\<close>, its only caller, passes (so the cadence block raises
  with it); it raises AttributeError when the trainer has none; and only with a
  different, non-empty dataloader of the trainer does it return (a mean of zero, on rank
  0). Guarding against zero-length validation sets is left to the caller.
\<close>

theorem evaluate_empty_raises:
  "batches_for dl None = [] \<Longrightarrow>
     evaluate self env (Some dl) steps =
       (case eval_dataloader self of
          None \<Rightarrow> Inl AttributeError
        | Some self_dl \<Rightarrow>
            if batches_for self_dl None = [] then Inl ZeroDivisionError
            else Inr (if is_rank_0 self then Some 0 else None)) \<and>
     (eval_dataloader self = Some dl \<longrightarrow>
        evaluate self env (eval_dataloader self) steps = Inl ZeroDivisionError \<and>
        (arg_logging_steps args \<noteq> 0 \<and> arg_eval_steps args \<noteq> 0 \<and>
         g mod arg_eval_steps args = 0 \<longrightarrow>
           save_logs_and_checkpoints self env args g logs cs = Inl ZeroDivisionError))"
  by (auto simp: evaluate_def save_logs_and_checkpoints_def py_mod_def Let_def
           split: option.splits)

theorem evaluate_empty_raises_witness:
  "batches_for empty_loader None = [] \<and>
   eval_dataloader moe_trainer = Some empty_loader \<and>
   evaluate moe_trainer sample_env (eval_dataloader moe_trainer) 5 = Inl ZeroDivisionError \<and>
   save_logs_and_checkpoints moe_trainer sample_env sample_args 1000 [] [] = Inl ZeroDivisionError \<and>
   evaluate other_eval_trainer sample_env (Some empty_loader) 5 = Inr (Some 0) \<and>
   evaluate (plain_trainer\<lparr>eval_dataloader := None\<rparr>) sample_env (Some empty_loader) 5
     = Inl AttributeError"
proof -
  have a: "eval_dataloader moe_trainer = Some empty_loader"
    by (simp add: moe_trainer_def plain_trainer_def)
  have b: "batches_for empty_loader None = []"
    by (simp add: empty_loader_def)
  have n: "batches_for plain_loader None \<noteq> []"
    by (simp add: plain_loader_def)
  from evaluate_empty_raises [OF b, where self = moe_trainer and env = sample_env and steps = 5
      and args = sample_args and g = 1000 and logs = "[]" and cs = "[]"] a
  have c: "evaluate moe_trainer sample_env (eval_dataloader moe_trainer) 5 = Inl ZeroDivisionError"
    "save_logs_and_checkpoints moe_trainer sample_env sample_args 1000 [] [] = Inl ZeroDivisionError"
    by (simp_all add: sample_args_def b)
  from evaluate_empty_raises [OF b, where self = other_eval_trainer and env = sample_env and steps = 5] n
  have d: "evaluate other_eval_trainer sample_env (Some empty_loader) 5 = Inr (Some 0)"
    by (simp add: other_eval_trainer_def plain_trainer_def b)
  from evaluate_empty_raises [OF b, where self = "plain_trainer\<lparr>eval_dataloader := None\<rparr>" and env = sample_env
      and steps = 5]
  have e: "evaluate (plain_trainer\<lparr>eval_dataloader := None\<rparr>) sample_env (Some empty_loader) 5
     = Inl AttributeError"
    by (simp add: b)
  from a b c d e show ?thesis
    by simp
qed

subsection \<open>One micro-batch: what it leaves unchanged and what it appends\<close>

lemma py_mod_eq_Inr: "py_mod a b = Inr r \<longleftrightarrow> b \<noteq> 0 \<and> r = a mod b"
  by (auto simp: py_mod_def)

lemma save_logs_keyed:
  assumes "save_logs_and_checkpoints self env args g logs cs = Inr evs"
  shows "list_all (cadence_event g) evs"
  using assms
  by (auto simp: save_logs_and_checkpoints_def bnd_eq_Inr cadence_event_def Let_def
           split: if_splits)

lemma save_logs_ckpt:
  assumes "save_logs_and_checkpoints self env args g logs cs = Inr evs"
    and "SaveCkpt tag cs' \<in> set evs"
  shows "tag = ''global_step'' @ str_int g \<and> cs' = cs"
  using assms
  by (auto simp: save_logs_and_checkpoints_def bnd_eq_Inr Let_def split: if_splits)

lemma step_sync_Inr:
  assumes "step_sync self env args st loss pl probs acc = Inr st'"
  shows "accumulated_gradient self \<noteq> 0 \<and>
         (\<exists>evs. st' = st\<lparr>events := events st @ [Backward loss, OptimizerStep] @ evs,
                          step := step st + 1\<rparr> \<and>
                (if step st mod accumulated_gradient self = 0
                 then save_logs_and_checkpoints self env args
                        (step st div accumulated_gradient self)
                        (logs_dict env (st\<lparr>events := events st @ [Backward loss, OptimizerStep]\<rparr>)
                           pl probs acc)
                        [(''consumed_samples'',
                          step st div accumulated_gradient self * arg_train_batch_size args)]
                      = Inr evs
                 else evs = []))"
  using assms
  by (auto simp: step_sync_def bnd_eq_Inr py_mod_eq_Inr Let_def split: if_splits)

lemma ema_update_frame [simp]:
  "step (ema_update st a p l) = step st"
  "events (ema_update st a p l) = events st"
  "v_chosen_ids (ema_update st a p l) = v_chosen_ids st"
  "v_packed_input_ids (ema_update st a p l) = v_packed_input_ids st"
  "v_packed_attention_masks (ema_update st a p l) = v_packed_attention_masks st"
  "v_packed_seq_lens (ema_update st a p l) = v_packed_seq_lens st"
  by (simp_all add: ema_update_def)

lemma step_head_frame:
  assumes "step_head self env st data = Inr (st1, v)"
  shows "step st1 = step st \<and> events st1 = events st"
  using assms
  by (auto simp: step_head_def bnd_eq_Inr Let_def split: if_splits batch.splits)

lemma step_head_plain_packed_vars:
  assumes "step_head self env st data = Inr (st1, v)" and "\<not> packing_samples self"
  shows "v_packed_input_ids st1 = v_packed_input_ids st"
  using assms
  by (auto simp: step_head_def bnd_eq_Inr Let_def split: batch.splits)

lemma step_blend_frame:
  assumes "step_blend self env args st pl = Inr (st1, loss)"
  shows "step st1 = step st \<and> events st1 = events st"
  using assms
  by (auto simp: step_blend_def bnd_eq_Inr Let_def split: if_splits)

lemma step_tail_Inr:
  assumes "step_tail self env args (st, v) = Inr st'"
  shows "\<exists>st3 loss pl probs acc. step st3 = step st \<and> events st3 = events st \<and>
           step_sync self env args st3 loss pl probs acc = Inr st'"
  using assms
  by (auto simp: step_tail_def bnd_eq_Inr Let_def dest!: step_blend_frame) blast

lemma train_step_Inr:
  assumes "train_step self env args st data = Inr st'"
  shows "accumulated_gradient self \<noteq> 0 \<and> step st' = step st + 1 \<and>
         (\<exists>loss evs. events st' = events st @ [Backward loss, OptimizerStep] @ evs \<and>
            (if step st mod accumulated_gradient self = 0
             then list_all (cadence_event (step st div accumulated_gradient self)) evs \<and>
                  (\<forall>tag cs. SaveCkpt tag cs \<in> set evs \<longrightarrow>
                     cs = [(''consumed_samples'',
                            step st div accumulated_gradient self * arg_train_batch_size args)])
             else evs = []))"
proof -
  from assms obtain st1 v where h: "step_head self env st data = Inr (st1, v)"
    and t: "step_tail self env args (st1, v) = Inr st'"
    by (auto simp: train_step_def bnd_eq_Inr)
  from step_head_frame [OF h] have f1: "step st1 = step st" "events st1 = events st"
    by simp_all
  from step_tail_Inr [OF t] obtain st3 loss pl probs acc
    where f3: "step st3 = step st1" "events st3 = events st1"
      and s: "step_sync self env args st3 loss pl probs acc = Inr st'"
    by blast
  from step_sync_Inr [OF s] obtain evs
    where ag: "accumulated_gradient self \<noteq> 0"
      and st': "st' = st3\<lparr>events := events st3 @ [Backward loss, OptimizerStep] @ evs,
                          step := step st3 + 1\<rparr>"
      and c: "if step st3 mod accumulated_gradient self = 0
              then save_logs_and_checkpoints self env args
                     (step st3 div accumulated_gradient self)
                     (logs_dict env (st3\<lparr>events := events st3 @ [Backward loss, OptimizerStep]\<rparr>)
                        pl probs acc)
                     [(''consumed_samples'',
                       step st3 div accumulated_gradient self * arg_train_batch_size args)]
                   = Inr evs
              else evs = []"
    by blast
  have e: "events st' = events st @ [Backward loss, OptimizerStep] @ evs"
    using st' f1 f3 by simp
  have n: "step st' = step st + 1"
    using st' f1 f3 by simp
  have k: "if step st mod accumulated_gradient self = 0
           then list_all (cadence_event (step st div accumulated_gradient self)) evs \<and>
                (\<forall>tag cs. SaveCkpt tag cs \<in> set evs \<longrightarrow>
                   cs = [(''consumed_samples'',
                          step st div accumulated_gradient self * arg_train_batch_size args)])
           else evs = []"
  proof (cases "step st mod accumulated_gradient self = 0")
    case True
    with c f1 f3
    have sl: "save_logs_and_checkpoints self env args (step st div accumulated_gradient self)
                (logs_dict env (st3\<lparr>events := events st3 @ [Backward loss, OptimizerStep]\<rparr>)
                   pl probs acc)
                [(''consumed_samples'',
                  step st div accumulated_gradient self * arg_train_batch_size args)]
              = Inr evs"
      by simp
    show ?thesis
      using True save_logs_keyed [OF sl] save_logs_ckpt [OF sl] by auto
  next
    case False
    with c f1 f3 show ?thesis by simp
  qed
  from ag n e k show ?thesis
    by blast
qed

subsection \<open>Evaluating the sample runs\<close>

lemmas step_defs =
  train_step_def step_head_def step_tail_def step_middle_def step_blend_def step_sync_def
  logs_dict_def fit_return_output_def is_moe_def is_regression_moe_def is_dpo_def
  concatenated_forward_def concatenated_inputs_def pad_to_length_def cat_first_def cat_last_def
  filled_def fit_loss_args_first_def fit_loss_args_second_def ema_update_def accuracy_def
  tensor_mean_def save_logs_and_checkpoints_def py_mod_def save_due_def str_int_def
  initial_state_def Let_def

lemmas sample_defs =
  plain_trainer_def packed_trainer_def sample_env_def sample_args_def plain_batch_def
  packed_batch_def plain_loader_def packed_loader_def empty_loader_def ids_a_def ids_b_def
  mask_a_def mask_b_def packed_ids_def packed_mask_def

lemma plain_head:
  "step_head plain_trainer sample_env (initial_state 1) plain_batch =
     Inr ((initial_state 1)\<lparr>acc_mean := 1/10, prob_mean := 1/10, loss_mean := 1/10,
            v_chosen_ids := Some ids_a, v_c_mask := Some mask_a,
            v_reject_ids := Some ids_b, v_r_mask := Some mask_b\<rparr>,
          \<lparr>chosen_reward = [[1]], reject_reward = [[1]], outputs = None,
           chosen_response_len = [1], margin = None\<rparr>)"
  by (simp add: step_defs sample_defs)

lemma plain_head_in_epoch:
  "step_head plain_trainer sample_env ((initial_state 1)\<lparr>events := [SetEpoch 0 0]\<rparr>) plain_batch =
     Inr ((initial_state 1)\<lparr>acc_mean := 1/10, prob_mean := 1/10, loss_mean := 1/10,
            v_chosen_ids := Some ids_a, v_c_mask := Some mask_a,
            v_reject_ids := Some ids_b, v_r_mask := Some mask_b, events := [SetEpoch 0 0]\<rparr>,
          \<lparr>chosen_reward = [[1]], reject_reward = [[1]], outputs = None,
           chosen_response_len = [1], margin = None\<rparr>)"
  by (simp add: step_defs sample_defs)

lemma packed_step_first:
  "train_step packed_trainer sample_env sample_args (initial_state 1) packed_batch =
     Inr after_first_step"
  by (simp add: step_defs sample_defs after_first_step_def)

lemma accum_step_first:
  "train_step accum_trainer sample_env sample_args (initial_state 1) packed_batch =
     Inr (after_first_step\<lparr>events := [Backward 1, OptimizerStep]\<rparr>)"
  by (simp add: step_defs sample_defs after_first_step_def accum_trainer_def)

lemma packed_step_fifth:
  "train_step packed_trainer sample_env sample_args before_step_5 packed_batch = Inr after_step_5"
  by (simp add: step_defs sample_defs before_step_5_def after_step_5_def)

subsection \<open>The non-packed path without auxiliary loss\<close>

lemma step_middle_plain_fails:
  assumes "\<not> packing_samples self" and "\<not> arg_add_pretrain_loss args"
  shows "\<exists>e. step_middle self env args st v = Inl e"
  using assms
  by (cases "v_packed_input_ids st"; cases "v_packed_attention_masks st";
      cases "v_packed_seq_lens st")
     (simp_all add: step_middle_def concatenated_forward_def)

lemma step_middle_unbound:
  assumes "\<not> arg_add_pretrain_loss args" and "v_packed_input_ids st = None"
  shows "step_middle self env args st v = Inl NameError"
  using assms by (simp add: step_middle_def)

lemma train_step_plain_fails:
  assumes "\<not> packing_samples self" and "\<not> arg_add_pretrain_loss args"
  shows "\<exists>e. train_step self env args st data = Inl e"
proof (cases "step_head self env st data")
  case (Inl e)
  then show ?thesis by (simp add: train_step_def)
next
  case (Inr sv)
  obtain st1 v where sv: "sv = (st1, v)" by (cases sv)
  from step_middle_plain_fails [OF assms] obtain e where "step_middle self env args st1 v = Inl e"
    by blast
  then show ?thesis
    using Inr sv by (simp add: train_step_def step_tail_def)
qed

lemma train_step_plain_NameError:
  assumes "\<not> packing_samples self" and "\<not> arg_add_pretrain_loss args"
    and "v_packed_input_ids st = None" and "step_head self env st data = Inr sv"
  shows "train_step self env args st data = Inl NameError"
proof -
  obtain st1 v where sv: "sv = (st1, v)" by (cases sv)
  have "v_packed_input_ids st1 = None"
    using step_head_plain_packed_vars [of self env st data st1 v] assms sv by simp
  then have "step_middle self env args st1 v = Inl NameError"
    using assms(2) by (rule step_middle_unbound [rotated])
  then show ?thesis
    using assms(4) sv by (simp add: train_step_def step_tail_def)
qed

lemma train_batches_plain:
  assumes "\<not> packing_samples self" and "\<not> arg_add_pretrain_loss args"
    and "train_batches self env args st bs = Inr st'"
  shows "bs = [] \<and> st' = st"
proof (cases bs)
  case Nil
  with assms(3) show ?thesis by simp
next
  case (Cons b rest)
  from train_step_plain_fails [OF assms(1,2)] obtain e
    where "train_step self env args st b = Inl e" by blast
  with assms(3) Cons show ?thesis by simp
qed

lemma train_epochs_plain:
  assumes "\<not> packing_samples self" and "\<not> arg_add_pretrain_loss args"
  shows "train_epochs self env args se off st es = Inr st' \<Longrightarrow>
           step st' = step st \<and>
           (OptimizerStep \<notin> set (events st) \<longrightarrow> OptimizerStep \<notin> set (events st')) \<and>
           ((\<forall>l. Backward l \<notin> set (events st)) \<longrightarrow> (\<forall>l. Backward l \<notin> set (events st')))"
proof (induction es arbitrary: st)
  case Nil
  then show ?case by simp
next
  case (Cons e es)
  from Cons.prems obtain st1 where a: "train_epoch self env args se off st e = Inr st1"
    and b: "train_epochs self env args se off st1 es = Inr st'"
    by (auto simp: bnd_eq_Inr)
  from a have "st1 = epoch_begin self se off st e"
    using train_batches_plain [OF assms] by (auto simp: train_epoch_def)
  then have c: "step st1 = step st"
     "OptimizerStep \<notin> set (events st) \<longrightarrow> OptimizerStep \<notin> set (events st1)"
     "(\<forall>l. Backward l \<notin> set (events st)) \<longrightarrow> (\<forall>l. Backward l \<notin> set (events st1))"
    by (simp_all add: epoch_begin_def Let_def)
  from Cons.IH [OF b] c show ?case
    by simp
qed

lemma fit_args_frame [simp]:
  "arg_add_pretrain_loss (fit_args args S) = arg_add_pretrain_loss args"
  "arg_train_batch_size (fit_args args S) = arg_train_batch_size args"
  by (simp_all add: fit_args_def Let_def)

lemma restore_ok:
  assumes "B \<noteq> 0" and "S \<noteq> 0"
  shows "restore k B ag S = Inr (k div B * ag + 1, k div B div S, k mod (S * B))"
  using assms by (simp add: restore_def Let_def)

lemma restore_Inr:
  assumes "restore k B ag S = Inr r"
  shows "r = (k div B * ag + 1, k div B div S, k mod (S * B))"
  using assms by (auto simp: restore_def Let_def split: if_splits)

text \<open>
  Claim C2. With \<open>packing_samples\<close> off and \<open>args.add_pretrain_loss\<close> off, no training
  micro-batch completes: every step raises. A step whose first half (forward pass, loss,
  first update of the averages) succeeds reaches the second forward call, which reads
  \<open>packed_input_ids\<close>; that variable is unbound on this path, and the step raises
  NameError; the variable is unbound in the initial state of \<open>fit\<close> and the start of an
  epoch does not bind it. Hence a call of \<open>fit\<close> that returns at all has run no backward
  pass and no optimizer step, and its step counter is where it started.
\<close>

theorem nonpacked_step_raises:
  "\<not> packing_samples self \<Longrightarrow> \<not> arg_add_pretrain_loss args \<Longrightarrow>
     (\<exists>e. train_step self env args st data = Inl e) \<and>
     (\<forall>sv. v_packed_input_ids st = None \<and> step_head self env st data = Inr sv \<longrightarrow>
            train_step self env args st data = Inl NameError) \<and>
     v_packed_input_ids (initial_state s0) = None \<and>
     v_packed_input_ids (epoch_begin self se off st e) = v_packed_input_ids st \<and>
     (\<forall>st'. fit self env args k S = Inr st' \<longrightarrow>
            step st' = k div arg_train_batch_size args * accumulated_gradient self + 1 \<and>
            OptimizerStep \<notin> set (events st') \<and> (\<forall>l. Backward l \<notin> set (events st')))"
proof -
  assume np: "\<not> packing_samples self" and na: "\<not> arg_add_pretrain_loss args"
  have na': "\<not> arg_add_pretrain_loss (fit_args args S)"
    using na by simp
  have a: "\<exists>e. train_step self env args st data = Inl e"
    using np na by (rule train_step_plain_fails)
  have b: "\<forall>sv. v_packed_input_ids st = None \<and> step_head self env st data = Inr sv \<longrightarrow>
            train_step self env args st data = Inl NameError"
    using train_step_plain_NameError [OF np na] by blast
  have c: "\<forall>st'. fit self env args k S = Inr st' \<longrightarrow>
            step st' = k div arg_train_batch_size args * accumulated_gradient self + 1 \<and>
            OptimizerStep \<notin> set (events st') \<and> (\<forall>l. Backward l \<notin> set (events st'))"
  proof (intro allI impI)
    fix st'
    assume f: "fit self env args k S = Inr st'"
    then obtain r
      where r: "restore k (arg_train_batch_size args) (accumulated_gradient self) S = Inr r"
        and t: "(case r of (step0, start_epoch, consumed) \<Rightarrow>
                   train_epochs self env (fit_args args S) start_epoch consumed
                     (initial_state step0) [start_epoch..epochs self - 1]) = Inr st'"
      by (auto simp: fit_def Let_def bnd_eq_Inr)
    from restore_Inr [OF r] t
    have "train_epochs self env (fit_args args S) (k div arg_train_batch_size args div S)
            (k mod (S * arg_train_batch_size args))
            (initial_state (k div arg_train_batch_size args * accumulated_gradient self + 1))
            [k div arg_train_batch_size args div S..epochs self - 1] = Inr st'"
      by simp
    from train_epochs_plain [OF np na' this]
    show "step st' = k div arg_train_batch_size args * accumulated_gradient self + 1 \<and>
            OptimizerStep \<notin> set (events st') \<and> (\<forall>l. Backward l \<notin> set (events st'))"
      by (simp add: initial_state_def)
  qed
  have d: "v_packed_input_ids (initial_state s0) = None"
    "v_packed_input_ids (epoch_begin self se off st e) = v_packed_input_ids st"
    by (simp_all add: initial_state_def epoch_begin_def Let_def)
  from a b c d show ?thesis by blast
qed

theorem nonpacked_step_raises_witness:
  "\<not> packing_samples plain_trainer \<and> \<not> arg_add_pretrain_loss sample_args \<and>
   v_packed_input_ids (initial_state 1) = None \<and>
   step_head plain_trainer sample_env (initial_state 1) plain_batch =
     Inr ((initial_state 1)\<lparr>acc_mean := 1/10, prob_mean := 1/10, loss_mean := 1/10,
            v_chosen_ids := Some ids_a, v_c_mask := Some mask_a,
            v_reject_ids := Some ids_b, v_r_mask := Some mask_b\<rparr>,
          \<lparr>chosen_reward = [[1]], reject_reward = [[1]], outputs = None,
           chosen_response_len = [1], margin = None\<rparr>) \<and>
   train_step plain_trainer sample_env sample_args (initial_state 1) plain_batch = Inl NameError \<and>
   fit plain_trainer sample_env sample_args 0 50 = Inl NameError"
proof -
  have np: "\<not> packing_samples plain_trainer"
    by (simp add: plain_trainer_def)
  have na: "\<not> arg_add_pretrain_loss sample_args"
    by (simp add: sample_args_def)
  have u: "v_packed_input_ids (initial_state 1) = None"
    by (simp add: initial_state_def)
  from nonpacked_step_raises [OF np na, where env = sample_env and st = "initial_state 1"
      and data = plain_batch and k = 0 and S = 50] u plain_head
  have t: "train_step plain_trainer sample_env sample_args (initial_state 1) plain_batch
             = Inl NameError"
    by simp
  have b: "epoch_batches plain_trainer 0 0 0 = [plain_batch]"
    by (simp add: epoch_batches_def plain_trainer_def plain_loader_def)
  have eb: "epoch_begin plain_trainer 0 0 (initial_state 1) 0
              = (initial_state 1)\<lparr>events := [SetEpoch 0 0]\<rparr>"
    by (simp add: epoch_begin_def plain_trainer_def plain_loader_def sampler_offset_def
          initial_state_def)
  from nonpacked_step_raises [OF np na, where env = sample_env
      and st = "(initial_state 1)\<lparr>events := [SetEpoch 0 0]\<rparr>" and data = plain_batch
      and k = 0 and S = 50] plain_head_in_epoch
  have t2: "train_step plain_trainer sample_env sample_args
              ((initial_state 1)\<lparr>events := [SetEpoch 0 0]\<rparr>) plain_batch = Inl NameError"
    by (simp add: initial_state_def)
  have "fit plain_trainer sample_env sample_args 0 50 =
          train_epochs plain_trainer sample_env (fit_args sample_args 50) 0 0 (initial_state 1)
            [0..1]"
    by (simp add: fit_def restore_def Let_def sample_args_def plain_trainer_def fit_args_def)
  also have "fit_args sample_args 50 = sample_args\<lparr>arg_save_steps := PyInt 1\<rparr>"
    by (simp add: fit_args_def sample_args_def)
  finally have "fit plain_trainer sample_env sample_args 0 50 =
          train_epochs plain_trainer sample_env sample_args 0 0 (initial_state 1) [0..1]"
    by (simp add: sample_args_def)
  also have "[0..1::int] = [0, 1]"
    by (simp add: upto.simps)
  finally have f: "fit plain_trainer sample_env sample_args 0 50 = Inl NameError"
    by (simp add: train_epoch_def b eb t2)
  from np na u plain_head t f show ?thesis
    by simp
qed

subsection \<open>Resume and checkpoints\<close>

lemma fit_resumes:
  assumes "arg_train_batch_size args \<noteq> 0" and "S \<noteq> 0"
  shows "fit self env args k S =
           train_epochs self env (fit_args args S)
             (k div arg_train_batch_size args div S) (k mod (S * arg_train_batch_size args))
             (initial_state (k div arg_train_batch_size args * accumulated_gradient self + 1))
             [k div arg_train_batch_size args div S..epochs self - 1]"
  using assms by (simp add: fit_def Let_def restore_ok)

lemma epoch_begin_sampler:
  assumes "is_group_sampler (train_dataloader self)"
  shows "events (epoch_begin self se off st e)
           = events st @ [SetEpoch e (if e > se then 0 else off)]"
    and "epoch_batches self se off e =
           batches_for (train_dataloader self) (Some (e, if e > se then 0 else off))"
  using assms by (simp_all add: epoch_begin_def epoch_batches_def sampler_offset_def Let_def)

lemma train_step_ckpt:
  assumes "train_step self env args st data = Inr st'"
    and "SaveCkpt tag cs \<in> set (drop (length (events st)) (events st'))"
  shows "step st mod accumulated_gradient self = 0 \<and>
         tag = ''global_step'' @ str_int (step st div accumulated_gradient self) \<and>
         cs = [(''consumed_samples'',
                step st div accumulated_gradient self * arg_train_batch_size args)]"
proof -
  from train_step_Inr [OF assms(1)] obtain loss evs
    where e: "events st' = events st @ [Backward loss, OptimizerStep] @ evs"
      and k: "if step st mod accumulated_gradient self = 0
             then list_all (cadence_event (step st div accumulated_gradient self)) evs \<and>
                  (\<forall>tag cs. SaveCkpt tag cs \<in> set evs \<longrightarrow>
                     cs = [(''consumed_samples'',
                            step st div accumulated_gradient self * arg_train_batch_size args)])
             else evs = []"
    by blast
  from assms(2) e have m: "SaveCkpt tag cs \<in> set evs"
    by simp
  then have z: "step st mod accumulated_gradient self = 0"
    using k by (cases "step st mod accumulated_gradient self = 0") simp_all
  with k m have "cadence_event (step st div accumulated_gradient self) (SaveCkpt tag cs)"
    and c: "cs = [(''consumed_samples'',
                   step st div accumulated_gradient self * arg_train_batch_size args)]"
    by (auto simp: list_all_iff)
  then show ?thesis
    using z by (simp add: cadence_event_def)
qed

lemma digit_ok:
  assumes "n < 10"
  shows "digit_val (''0123456789'' ! n) = n \<and> ''0123456789'' ! n \<in> set ''0123456789''"
proof -
  from assms have "n = 0 \<or> n = 1 \<or> n = 2 \<or> n = 3 \<or> n = 4 \<or> n = 5 \<or> n = 6 \<or> n = 7
      \<or> n = 8 \<or> n = 9"
    by arith
  then show ?thesis
    by (elim disjE) (simp_all add: digit_val_def)
qed

lemma dec_value_snoc: "dec_value (s @ [c]) = 10 * dec_value s + digit_val c"
  by (simp add: dec_value_def)

lemma str_nat_value: "dec_value (str_nat n) = n \<and> set (str_nat n) \<subseteq> set ''0123456789'' \<and> str_nat n \<noteq> []"
proof (induction n rule: str_nat.induct)
  case (1 n)
  show ?case
  proof (cases "n < 10")
    case True
    then have "str_nat n = [''0123456789'' ! n]" by (subst str_nat.simps) simp
    with digit_ok [OF True] show ?thesis by (simp add: dec_value_def)
  next
    case False
    then have s: "str_nat n = str_nat (n div 10) @ [''0123456789'' ! (n mod 10)]"
      by (subst str_nat.simps) simp
    have m: "n mod 10 < 10" by simp
    from 1 [OF False] digit_ok [OF m] show ?thesis
      unfolding s by (simp add: dec_value_snoc)
  qed
qed

lemma str_nat_no_leading_zero: "0 < n \<Longrightarrow> hd (str_nat n) \<noteq> CHR ''0''"
proof (induction n rule: str_nat.induct)
  case (1 n)
  show ?case
  proof (cases "n < 10")
    case True
    then have s: "str_nat n = [''0123456789'' ! n]" by (subst str_nat.simps) simp
    from True "1.prems" have "n = 1 \<or> n = 2 \<or> n = 3 \<or> n = 4 \<or> n = 5 \<or> n = 6 \<or> n = 7
        \<or> n = 8 \<or> n = 9"
      by arith
    then show ?thesis
      unfolding s by (elim disjE) simp_all
  next
    case False
    then have s: "str_nat n = str_nat (n div 10) @ [''0123456789'' ! (n mod 10)]"
      by (subst str_nat.simps) simp
    from False have p: "0 < n div 10" by simp
    have ne: "str_nat (n div 10) \<noteq> []" using str_nat_value by blast
    from 1(1) [OF False p] ne show ?thesis
      unfolding s by simp
  qed
qed

lemma str_int_decimal:
  "(0 \<le> g \<longrightarrow> dec_value (str_int g) = nat g \<and> set (str_int g) \<subseteq> set ''0123456789'' \<and>
       (0 < g \<longrightarrow> hd (str_int g) \<noteq> CHR ''0'')) \<and>
   (g < 0 \<longrightarrow> str_int g = CHR ''-'' # str_int (- g)) \<and> str_int 0 = ''0''"
proof -
  have z: "str_nat 0 = ''0''" by (subst str_nat.simps) simp
  show ?thesis
    using str_nat_value [of "nat g"] str_nat_no_leading_zero [of "nat g"] z
    by (auto simp: str_int_def)
qed

lemma set_epoch_calls_append [simp]:
  "set_epoch_calls (a @ b) = set_epoch_calls a @ set_epoch_calls b"
  by (simp add: set_epoch_calls_def map_filter_def)

lemma set_epoch_calls_simps [simp]:
  "set_epoch_calls [] = []"
  "set_epoch_calls (SetEpoch e c # evs) = (e, c) # set_epoch_calls evs"
  "set_epoch_calls (Backward l # evs) = set_epoch_calls evs"
  "set_epoch_calls (OptimizerStep # evs) = set_epoch_calls evs"
  "set_epoch_calls (LogMetrics g d # evs) = set_epoch_calls evs"
  "set_epoch_calls (Evaluated g r # evs) = set_epoch_calls evs"
  "set_epoch_calls (SaveCkpt t cs # evs) = set_epoch_calls evs"
  by (simp_all add: set_epoch_calls_def map_filter_def)

lemma cadence_no_set_epoch:
  "list_all (cadence_event g) evs \<Longrightarrow> set_epoch_calls evs = []"
proof (induction evs)
  case Nil
  then show ?case by simp
next
  case (Cons ev evs)
  then show ?case by (cases ev) (simp_all add: cadence_event_def)
qed

lemma train_step_set_epoch:
  assumes "train_step self env args st data = Inr st'"
  shows "set_epoch_calls (events st') = set_epoch_calls (events st)"
proof -
  from train_step_Inr [OF assms] obtain loss evs
    where e: "events st' = events st @ [Backward loss, OptimizerStep] @ evs"
      and k: "if step st mod accumulated_gradient self = 0
             then list_all (cadence_event (step st div accumulated_gradient self)) evs \<and>
                  (\<forall>tag cs. SaveCkpt tag cs \<in> set evs \<longrightarrow>
                     cs = [(''consumed_samples'',
                            step st div accumulated_gradient self * arg_train_batch_size args)])
             else evs = []"
    by blast
  have "set_epoch_calls evs = []"
    using k cadence_no_set_epoch by (cases "step st mod accumulated_gradient self = 0") auto
  with e show ?thesis by simp
qed

lemma train_batches_set_epoch:
  "train_batches self env args st bs = Inr st' \<Longrightarrow>
     set_epoch_calls (events st') = set_epoch_calls (events st)"
proof (induction bs arbitrary: st)
  case Nil
  then show ?case by simp
next
  case (Cons b bs)
  from Cons.prems obtain s1 where a: "train_step self env args st b = Inr s1"
    and b: "train_batches self env args s1 bs = Inr st'"
    by (auto simp: bnd_eq_Inr)
  from Cons.IH [OF b] train_step_set_epoch [OF a] show ?case by simp
qed

lemma train_epochs_set_epoch:
  assumes "is_group_sampler (train_dataloader self)"
  shows "train_epochs self env args se off st es = Inr st' \<Longrightarrow>
     set_epoch_calls (events st') =
       set_epoch_calls (events st) @ map (\<lambda>e. (e, if e > se then 0 else off)) es"
proof (induction es arbitrary: st)
  case Nil
  then show ?case by simp
next
  case (Cons e es)
  from Cons.prems obtain s1 where a: "train_epoch self env args se off st e = Inr s1"
    and b: "train_epochs self env args se off s1 es = Inr st'"
    by (auto simp: bnd_eq_Inr)
  from a have "set_epoch_calls (events s1) = set_epoch_calls (events (epoch_begin self se off st e))"
    by (simp add: train_epoch_def train_batches_set_epoch)
  also have "\<dots> = set_epoch_calls (events st) @ [(e, if e > se then 0 else off)]"
    using assms by (simp add: epoch_begin_sampler)
  finally show ?case
    using Cons.IH [OF b] by simp
qed

lemma train_epochs_no_set_epoch:
  assumes "\<not> is_group_sampler (train_dataloader self)"
  shows "train_epochs self env args se off st es = Inr st' \<Longrightarrow>
     set_epoch_calls (events st') = set_epoch_calls (events st)"
proof (induction es arbitrary: st)
  case Nil
  then show ?case by simp
next
  case (Cons e es)
  from Cons.prems obtain s1 where a: "train_epoch self env args se off st e = Inr s1"
    and b: "train_epochs self env args se off s1 es = Inr st'"
    by (auto simp: bnd_eq_Inr)
  from a have "set_epoch_calls (events s1) = set_epoch_calls (events (epoch_begin self se off st e))"
    by (simp add: train_epoch_def train_batches_set_epoch)
  also have "\<dots> = set_epoch_calls (events st)"
    using assms by (simp add: epoch_begin_def Let_def)
  finally show ?case
    using Cons.IH [OF b] by simp
qed

lemma train_epochs_unfold:
  assumes "is_group_sampler (train_dataloader self)"
  shows "train_epochs self env args se off st (e # es) =
           bnd (train_batches self env args
                  (st\<lparr>events := events st @ [SetEpoch e (if e > se then 0 else off)],
                      acc_mean := 0, prob_mean := 0, loss_mean := 0\<rparr>)
                  (batches_for (train_dataloader self) (Some (e, if e > se then 0 else off))))
             (\<lambda>s. train_epochs self env args se off s es)"
  using assms
  by (simp add: train_epoch_def epoch_begin_def epoch_batches_def sampler_offset_def Let_def)

lemma upto_0_1: "[0..1::int] = [0, 1]"
  by (simp add: upto.simps)

lemma packed_fit_resumed:
  "fit packed_trainer sample_env sample_args 640 50 = Inr after_resumed_fit"
  by (simp add: fit_def fit_args_def restore_def upto_0_1 train_epoch_def epoch_begin_def
        epoch_batches_def sampler_offset_def step_defs sample_defs after_resumed_fit_def)

lemma packed_step_second:
  "train_step packed_trainer sample_env sample_args after_first_step packed_batch
     = Inr after_two_steps"
  by (simp add: step_defs sample_defs after_first_step_def after_two_steps_def)

text \<open>
  Claim C3. With \<open>B\<close> the train batch size, \<open>S\<close> the update steps per epoch (both
  non-zero: a zero divisor raises before anything is recovered) and \<open>ag\<close> the
  accumulation factor, \<open>fit\<close> started from \<open>consumed_samples = k\<close> runs the epochs from
  \<open>k // B // S\<close> with intra-epoch offset \<open>k % (S*B)\<close> and step \<open>k // B * ag + 1\<close>. With
  a \<open>GroupDistributedSampler\<close>, every epoch of the run tells the sampler its number and
  the offset, which is the recovered one for the resumed epoch and zero for every later
  one, and trains on the batches drawn for exactly that pair; the \<open>set_epoch\<close> calls of
  a \<open>fit\<close> that returns are these, one per epoch, in order (with any other sampler
  \<open>fit\<close> makes no such call). A checkpoint written by a
  micro-batch is written at a multiple of \<open>ag\<close>, carries the tag \<open>global_step{g}\<close>
  with \<open>g = step // ag\<close> and the client state \<open>consumed_samples = g*B\<close>, from which
  reading \<open>consumed_samples\<close> back gives \<open>g*B\<close> and restoring gives step \<open>g*ag + 1\<close>,
  epoch \<open>g // S\<close> and offset \<open>(g*B) % (S*B)\<close>. The number in the tag is the decimal
  numeral of \<open>g\<close>: digits only, denoting \<open>g\<close>, without a leading zero, after a minus
  sign for a negative \<open>g\<close>.
\<close>

theorem resume_round_trip:
  assumes "B = arg_train_batch_size args" and "ag = accumulated_gradient self"
    and "B \<noteq> 0" and "S \<noteq> 0"
  shows
    "fit self env args k S =
       train_epochs self env (fit_args args S) (k div B div S) (k mod (S * B))
         (initial_state (k div B * ag + 1)) [k div B div S..epochs self - 1] \<and>
     (is_group_sampler (train_dataloader self) \<longrightarrow>
        train_epochs self env args se off st (e # es) =
           bnd (train_batches self env args
                  (st\<lparr>events := events st @ [SetEpoch e (if e > se then 0 else off)],
                      acc_mean := 0, prob_mean := 0, loss_mean := 0\<rparr>)
                  (batches_for (train_dataloader self) (Some (e, if e > se then 0 else off))))
             (\<lambda>s. train_epochs self env args se off s es) \<and>
        (\<forall>fin. fit self env args k S = Inr fin \<longrightarrow>
           set_epoch_calls (events fin) =
             map (\<lambda>e. (e, if e > k div B div S then 0 else k mod (S * B)))
               [k div B div S..epochs self - 1])) \<and>
     (\<not> is_group_sampler (train_dataloader self) \<longrightarrow>
        (\<forall>fin. fit self env args k S = Inr fin \<longrightarrow> set_epoch_calls (events fin) = [])) \<and>
     (\<forall>st' tag cs.
        train_step self env args st data = Inr st' \<and>
        SaveCkpt tag cs \<in> set (drop (length (events st)) (events st')) \<longrightarrow>
          step st mod ag = 0 \<and>
          tag = ''global_step'' @ str_int (step st div ag) \<and>
          cs = [(''consumed_samples'', step st div ag * B)] \<and>
          map_of cs ''consumed_samples'' = Some (step st div ag * B) \<and>
          restore (step st div ag * B) B ag S =
            Inr (step st div ag * ag + 1, step st div ag div S,
                 (step st div ag * B) mod (S * B))) \<and>
     (0 \<le> g \<longrightarrow> dec_value (str_int g) = nat g \<and> set (str_int g) \<subseteq> set ''0123456789'' \<and>
        (0 < g \<longrightarrow> hd (str_int g) \<noteq> CHR ''0'')) \<and>
     (g < 0 \<longrightarrow> str_int g = CHR ''-'' # str_int (- g)) \<and> str_int 0 = ''0''"
proof -
  have a: "fit self env args k S =
       train_epochs self env (fit_args args S) (k div B div S) (k mod (S * B))
         (initial_state (k div B * ag + 1)) [k div B div S..epochs self - 1]"
    using assms fit_resumes [of args S self env k] by simp
  have r: "restore (g * B) B ag S = Inr (g * ag + 1, g div S, (g * B) mod (S * B))" for g
    using restore_ok [OF assms(3,4), of "g * B" ag] assms(3) by simp
  have b: "is_group_sampler (train_dataloader self) \<longrightarrow>
        train_epochs self env args se off st (e # es) =
           bnd (train_batches self env args
                  (st\<lparr>events := events st @ [SetEpoch e (if e > se then 0 else off)],
                      acc_mean := 0, prob_mean := 0, loss_mean := 0\<rparr>)
                  (batches_for (train_dataloader self) (Some (e, if e > se then 0 else off))))
             (\<lambda>s. train_epochs self env args se off s es)"
    using train_epochs_unfold by blast
  have b2: "is_group_sampler (train_dataloader self) \<longrightarrow>
        (\<forall>fin. fit self env args k S = Inr fin \<longrightarrow>
           set_epoch_calls (events fin) =
             map (\<lambda>e. (e, if e > k div B div S then 0 else k mod (S * B)))
               [k div B div S..epochs self - 1])"
  proof (intro impI allI)
    fix fin
    assume gs: "is_group_sampler (train_dataloader self)"
      and f: "fit self env args k S = Inr fin"
    from f a have "train_epochs self env (fit_args args S) (k div B div S) (k mod (S * B))
         (initial_state (k div B * ag + 1)) [k div B div S..epochs self - 1] = Inr fin"
      by simp
    from train_epochs_set_epoch [OF gs this]
    show "set_epoch_calls (events fin) =
             map (\<lambda>e. (e, if e > k div B div S then 0 else k mod (S * B)))
               [k div B div S..epochs self - 1]"
      by (simp add: initial_state_def)
  qed
  have b3: "\<not> is_group_sampler (train_dataloader self) \<longrightarrow>
        (\<forall>fin. fit self env args k S = Inr fin \<longrightarrow> set_epoch_calls (events fin) = [])"
  proof (intro impI allI)
    fix fin
    assume gs: "\<not> is_group_sampler (train_dataloader self)"
      and f: "fit self env args k S = Inr fin"
    from f a have "train_epochs self env (fit_args args S) (k div B div S) (k mod (S * B))
         (initial_state (k div B * ag + 1)) [k div B div S..epochs self - 1] = Inr fin"
      by simp
    from train_epochs_no_set_epoch [OF gs this]
    show "set_epoch_calls (events fin) = []"
      by (simp add: initial_state_def)
  qed
  have c: "\<forall>st' tag cs.
        train_step self env args st data = Inr st' \<and>
        SaveCkpt tag cs \<in> set (drop (length (events st)) (events st')) \<longrightarrow>
          step st mod ag = 0 \<and>
          tag = ''global_step'' @ str_int (step st div ag) \<and>
          cs = [(''consumed_samples'', step st div ag * B)] \<and>
          map_of cs ''consumed_samples'' = Some (step st div ag * B) \<and>
          restore (step st div ag * B) B ag S =
            Inr (step st div ag * ag + 1, step st div ag div S,
                 (step st div ag * B) mod (S * B))"
  proof (intro allI impI)
    fix st' tag cs
    assume h: "train_step self env args st data = Inr st' \<and>
        SaveCkpt tag cs \<in> set (drop (length (events st)) (events st'))"
    from train_step_ckpt [of self env args st data st' tag cs] h assms(1,2)
    have t: "step st mod ag = 0" "tag = ''global_step'' @ str_int (step st div ag)"
      "cs = [(''consumed_samples'', step st div ag * B)]"
      by simp_all
    from t(3) have "map_of cs ''consumed_samples'' = Some (step st div ag * B)"
      by simp
    with t r show "step st mod ag = 0 \<and>
          tag = ''global_step'' @ str_int (step st div ag) \<and>
          cs = [(''consumed_samples'', step st div ag * B)] \<and>
          map_of cs ''consumed_samples'' = Some (step st div ag * B) \<and>
          restore (step st div ag * B) B ag S =
            Inr (step st div ag * ag + 1, step st div ag div S,
                 (step st div ag * B) mod (S * B))"
      by simp
  qed
  from a b b2 b3 c str_int_decimal [of g] show ?thesis
    by blast
qed

theorem resume_round_trip_witness:
  "arg_train_batch_size sample_args = 128 \<and> accumulated_gradient packed_trainer = 1 \<and>
   is_group_sampler (train_dataloader packed_trainer) \<and>
   train_step packed_trainer sample_env sample_args before_step_5 packed_batch = Inr after_step_5 \<and>
   SaveCkpt ''global_step5'' [(''consumed_samples'', 640)]
     \<in> set (drop (length (events before_step_5)) (events after_step_5)) \<and>
   map_of [(''consumed_samples'', 640 :: int)] ''consumed_samples'' = Some 640 \<and>
   restore 640 128 1 50 = Inr (6, 0, 640) \<and>
   fit packed_trainer sample_env sample_args 640 50 = Inr after_resumed_fit \<and>
   set_epoch_calls (events after_resumed_fit) = [(0, 640), (1, 0)] \<and>
   dec_value (str_int 5) = 5 \<and> str_int 5 = ''5''"
proof -
  have B: "128 = arg_train_batch_size sample_args"
    by (simp add: sample_args_def)
  have ag: "1 = accumulated_gradient packed_trainer"
    by (simp add: packed_trainer_def plain_trainer_def)
  have g: "is_group_sampler (train_dataloader packed_trainer)"
    by (simp add: packed_trainer_def plain_trainer_def packed_loader_def)
  have m: "SaveCkpt ''global_step5'' [(''consumed_samples'', 640)]
     \<in> set (drop (length (events before_step_5)) (events after_step_5))"
    by (simp add: before_step_5_def after_step_5_def)
  have s5: "step before_step_5 = 5"
    by (simp add: before_step_5_def initial_state_def)
  have ep: "epochs packed_trainer - 1 = 1"
    by (simp add: packed_trainer_def plain_trainer_def)
  have S: "(50::int) \<noteq> 0" and B0: "(128::int) \<noteq> 0"
    by simp_all
  have s: "str_int 5 = ''5''"
    by (simp add: str_int_def)
  note t = resume_round_trip [OF B ag B0 S, where env = sample_env and k = 640 and st = before_step_5
      and data = packed_batch and g = 5]
  from t g packed_step_fifth m have r: "restore 640 128 1 50 = Inr (6, 0, 640)"
    by (auto simp: s5)
  from t g packed_fit_resumed
  have c: "set_epoch_calls (events after_resumed_fit) = [(0, 640), (1, 0)]"
    by (simp add: ep upto_0_1)
  from t have d: "dec_value (str_int 5) = 5"
    by simp
  from B ag g packed_step_fifth m r packed_fit_resumed c d s show ?thesis
    by simp
qed

subsection \<open>Step counter, optimizer step and cadence\<close>

text \<open>
  Claim C4. Every micro-batch that completes increments the step counter by exactly one
  and calls the strategy's backward pass and optimizer step once each. When \<open>step\<close> is
  a multiple of \<open>accumulated_gradient\<close> that call applies an optimizer update and the
  logging, evaluation and checkpoint cadence follows, every event of it keyed by
  \<open>global_step = step // accumulated_gradient\<close>; on any other micro-batch no update is
  applied and nothing of the cadence happens.
\<close>

theorem optimizer_step_and_cadence:
  "train_step self env args st data = Inr st' \<Longrightarrow>
     step st' = step st + 1 \<and>
     (\<exists>loss evs. events st' = events st @ [Backward loss, OptimizerStep] @ evs \<and>
        (if step st mod accumulated_gradient self = 0
         then optimizer_update_applied (accumulated_gradient self) (step st) \<and>
              list_all (cadence_event (step st div accumulated_gradient self)) evs
         else \<not> optimizer_update_applied (accumulated_gradient self) (step st) \<and> evs = []))"
  by (drule train_step_Inr) (auto simp: optimizer_update_applied_def split: if_splits)

theorem optimizer_step_and_cadence_witness:
  "train_step packed_trainer sample_env sample_args (initial_state 1) packed_batch
     = Inr after_first_step \<and>
   step after_first_step = step (initial_state 1) + 1 \<and>
   step (initial_state 1) mod accumulated_gradient packed_trainer = 0 \<and>
   optimizer_update_applied (accumulated_gradient packed_trainer) (step (initial_state 1)) \<and>
   (\<exists>loss evs. events after_first_step
                  = events (initial_state 1) @ [Backward loss, OptimizerStep] @ evs \<and>
        list_all (cadence_event (step (initial_state 1) div accumulated_gradient packed_trainer))
          evs) \<and>
   train_step accum_trainer sample_env sample_args (initial_state 1) packed_batch
     = Inr (after_first_step\<lparr>events := [Backward 1, OptimizerStep]\<rparr>) \<and>
   step (initial_state 1) mod accumulated_gradient accum_trainer = 1 \<and>
   \<not> optimizer_update_applied (accumulated_gradient accum_trainer) (step (initial_state 1))"
proof -
  have m: "step (initial_state 1) mod accumulated_gradient packed_trainer = 0"
    by (simp add: initial_state_def packed_trainer_def plain_trainer_def)
  have m2: "step (initial_state 1) mod accumulated_gradient accum_trainer = 1"
    by (simp add: initial_state_def accum_trainer_def)
  from optimizer_step_and_cadence [OF packed_step_first] m packed_step_first
  have a: "step after_first_step = step (initial_state 1) + 1"
    "optimizer_update_applied (accumulated_gradient packed_trainer) (step (initial_state 1))"
    "\<exists>loss evs. events after_first_step
                  = events (initial_state 1) @ [Backward loss, OptimizerStep] @ evs \<and>
        list_all (cadence_event (step (initial_state 1) div accumulated_gradient packed_trainer))
          evs"
    by auto
  from optimizer_step_and_cadence [OF accum_step_first] m2
  have b: "\<not> optimizer_update_applied (accumulated_gradient accum_trainer) (step (initial_state 1))"
    by auto
  from a b m m2 packed_step_first accum_step_first show ?thesis
    by blast
qed

subsection \<open>Moving averages\<close>

text \<open>
  Claim C5, as stated, fails: the epoch of the packed trainer that consists of one
  micro-batch ends with all three averages at 19/100, and the next epoch begins with
  all three at 0.
\<close>

theorem ema_not_carried_across_epochs:
  "train_epoch packed_trainer sample_env sample_args 0 0 (initial_state 1) 0 = Inr after_epoch_0 \<and>
   loss_mean after_epoch_0 = 19/100 \<and>
   loss_mean (epoch_begin packed_trainer 0 0 after_epoch_0 1) = 0 \<and>
   acc_mean after_epoch_0 = 19/100 \<and>
   acc_mean (epoch_begin packed_trainer 0 0 after_epoch_0 1) = 0 \<and>
   prob_mean after_epoch_0 = 19/100 \<and>
   prob_mean (epoch_begin packed_trainer 0 0 after_epoch_0 1) = 0"
  by (simp add: train_epoch_def epoch_begin_def epoch_batches_def sampler_offset_def
        step_defs sample_defs after_first_step_def after_epoch_0_def)

lemma step_blend_ema:
  assumes "step_blend self env args st pl = Inr (st1, loss)"
  shows "acc_mean st1 = acc_mean st \<and> prob_mean st1 = prob_mean st \<and> loss_mean st1 = loss_mean st"
  using assms
  by (auto simp: step_blend_def bnd_eq_Inr Let_def split: if_splits)

lemma step_sync_ema:
  assumes "step_sync self env args st loss pl probs acc = Inr st'"
  shows "acc_mean st' = acc_mean st \<and> prob_mean st' = prob_mean st \<and> loss_mean st' = loss_mean st"
  using step_sync_Inr [OF assms] by auto

lemma step_head_ema:
  assumes "step_head self env st data = Inr (st1, v)"
  shows "\<exists>a l ps. loss_call env (loss_fn self) a = Inr (l, ps) \<and>
           acc_mean st1 = acc_mean st * 0.9 + 0.1 * accuracy ps \<and>
           prob_mean st1 = prob_mean st * 0.9 + 0.1 * tensor_mean ps \<and>
           loss_mean st1 = loss_mean st * 0.9 + 0.1 * l"
  using assms
  by (auto simp: step_head_def bnd_eq_Inr Let_def ema_update_def split: if_splits batch.splits)
     blast+

lemma step_tail_ema:
  assumes "step_tail self env args (st, v) = Inr st'"
  shows "\<exists>a l ps. loss_call env (loss_fn self) a = Inr (l, ps) \<and>
           acc_mean st' = acc_mean st * 0.9 + 0.1 * accuracy ps \<and>
           prob_mean st' = prob_mean st * 0.9 + 0.1 * tensor_mean ps \<and>
           loss_mean st' = loss_mean st * 0.9 + 0.1 * l"
proof -
  from assms obtain v2 a l ps st3 loss
    where lc: "loss_call env (loss_fn self) a = Inr (l, ps)"
      and bl: "step_blend self env args (ema_update st (accuracy ps) ps l) l = Inr (st3, loss)"
      and sy: "step_sync self env args st3 loss l ps (accuracy ps) = Inr st'"
    by (auto simp: step_tail_def bnd_eq_Inr Let_def)
  from step_blend_ema [OF bl] step_sync_ema [OF sy]
  have "acc_mean st' = acc_mean st * 0.9 + 0.1 * accuracy ps \<and>
           prob_mean st' = prob_mean st * 0.9 + 0.1 * tensor_mean ps \<and>
           loss_mean st' = loss_mean st * 0.9 + 0.1 * l"
    by (simp add: ema_update_def)
  with lc show ?thesis by blast
qed

lemma train_step_ema:
  assumes "train_step self env args st data = Inr st'"
  shows "\<exists>a1 l1 ps1 a2 l2 ps2.
           loss_call env (loss_fn self) a1 = Inr (l1, ps1) \<and>
           loss_call env (loss_fn self) a2 = Inr (l2, ps2) \<and>
           acc_mean st' = (acc_mean st * 0.9 + 0.1 * accuracy ps1) * 0.9 + 0.1 * accuracy ps2 \<and>
           prob_mean st' = (prob_mean st * 0.9 + 0.1 * tensor_mean ps1) * 0.9
                             + 0.1 * tensor_mean ps2 \<and>
           loss_mean st' = (loss_mean st * 0.9 + 0.1 * l1) * 0.9 + 0.1 * l2"
proof -
  from assms obtain st1 v where h: "step_head self env st data = Inr (st1, v)"
    and t: "step_tail self env args (st1, v) = Inr st'"
    by (auto simp: train_step_def bnd_eq_Inr)
  from step_head_ema [OF h] obtain a1 l1 ps1
    where 1: "loss_call env (loss_fn self) a1 = Inr (l1, ps1)"
      "acc_mean st1 = acc_mean st * 0.9 + 0.1 * accuracy ps1"
      "prob_mean st1 = prob_mean st * 0.9 + 0.1 * tensor_mean ps1"
      "loss_mean st1 = loss_mean st * 0.9 + 0.1 * l1"
    by blast
  from step_tail_ema [OF t] obtain a2 l2 ps2
    where 2: "loss_call env (loss_fn self) a2 = Inr (l2, ps2)"
      "acc_mean st' = acc_mean st1 * 0.9 + 0.1 * accuracy ps2"
      "prob_mean st' = prob_mean st1 * 0.9 + 0.1 * tensor_mean ps2"
      "loss_mean st' = loss_mean st1 * 0.9 + 0.1 * l2"
    by blast
  from 1 2 show ?thesis
    by (intro exI [of _ a1] exI [of _ l1] exI [of _ ps1] exI [of _ a2] exI [of _ l2]
          exI [of _ ps2]) simp
qed

text \<open>
  Claim C5, amended. The three moving averages are set to zero at the start of every
  epoch of a \<open>fit\<close> call, the first included: an epoch begins with all three at zero and
  runs the same whatever values the previous epoch left in them. Within an epoch they
  carry over from one micro-batch to the next: the epoch runs its micro-batches in
  sequence on the state the previous one left, and a micro-batch that completes leaves
  each average at the value it found, decayed and updated with the observation of each
  of its two loss calls in turn.
\<close>

theorem ema_reset_each_epoch:
  "acc_mean (epoch_begin self se off st e) = 0 \<and>
   prob_mean (epoch_begin self se off st e) = 0 \<and>
   loss_mean (epoch_begin self se off st e) = 0 \<and>
   train_epoch self env args se off (st\<lparr>acc_mean := a, prob_mean := p, loss_mean := l\<rparr>) e =
     train_epoch self env args se off st e \<and>
   train_epochs self env args se off st (e # es) =
     bnd (train_epoch self env args se off st e)
       (\<lambda>s. train_epochs self env args se off s es) \<and>
   train_epoch self env args se off st e =
     train_batches self env args (epoch_begin self se off st e)
       (epoch_batches self se off e) \<and>
   train_batches self env args st (data # rest) =
     bnd (train_step self env args st data) (\<lambda>s. train_batches self env args s rest) \<and>
   (\<forall>st'. train_step self env args st data = Inr st' \<longrightarrow>
      (\<exists>a1 l1 ps1 a2 l2 ps2.
           loss_call env (loss_fn self) a1 = Inr (l1, ps1) \<and>
           loss_call env (loss_fn self) a2 = Inr (l2, ps2) \<and>
           acc_mean st' = (acc_mean st * 0.9 + 0.1 * accuracy ps1) * 0.9 + 0.1 * accuracy ps2 \<and>
           prob_mean st' = (prob_mean st * 0.9 + 0.1 * tensor_mean ps1) * 0.9
                             + 0.1 * tensor_mean ps2 \<and>
           loss_mean st' = (loss_mean st * 0.9 + 0.1 * l1) * 0.9 + 0.1 * l2))"
proof -
  have r: "acc_mean (epoch_begin self se off st e) = 0 \<and>
   prob_mean (epoch_begin self se off st e) = 0 \<and>
   loss_mean (epoch_begin self se off st e) = 0 \<and>
   train_epoch self env args se off (st\<lparr>acc_mean := a, prob_mean := p, loss_mean := l\<rparr>) e =
     train_epoch self env args se off st e"
    by (simp add: train_epoch_def epoch_begin_def Let_def)
  have u: "train_epochs self env args se off st (e # es) =
     bnd (train_epoch self env args se off st e)
       (\<lambda>s. train_epochs self env args se off s es)"
    "train_epoch self env args se off st e =
     train_batches self env args (epoch_begin self se off st e)
       (epoch_batches self se off e)"
    "train_batches self env args st (data # rest) =
     bnd (train_step self env args st data) (\<lambda>s. train_batches self env args s rest)"
    by (simp_all add: train_epoch_def)
  from r u train_step_ema show ?thesis
    by blast
qed

theorem ema_reset_each_epoch_witness:
  "acc_mean (epoch_begin packed_trainer 0 0 after_epoch_0 1) = 0 \<and>
   prob_mean (epoch_begin packed_trainer 0 0 after_epoch_0 1) = 0 \<and>
   loss_mean (epoch_begin packed_trainer 0 0 after_epoch_0 1) = 0 \<and>
   train_epoch packed_trainer sample_env sample_args 0 0
       (after_epoch_0\<lparr>acc_mean := 1, prob_mean := 2, loss_mean := 3\<rparr>) 1 =
     train_epoch packed_trainer sample_env sample_args 0 0 after_epoch_0 1 \<and>
   train_step packed_trainer sample_env sample_args after_first_step packed_batch
     = Inr after_two_steps \<and>
   train_batches packed_trainer sample_env sample_args (initial_state 1)
       [packed_batch, packed_batch] = Inr after_two_steps \<and>
   loss_mean after_first_step = 19/100 \<and>
   loss_mean after_two_steps = (19/100 * 0.9 + 0.1 * 1) * 0.9 + 0.1 * 1 \<and>
   acc_mean after_two_steps = 3439/10000 \<and> prob_mean after_two_steps = 3439/10000"
proof -
  note t = ema_reset_each_epoch [where self = packed_trainer and se = 0 and off = 0
      and st = after_epoch_0 and e = 1 and env = sample_env and args = sample_args
      and a = 1 and p = 2 and l = 3]
  note t1 = ema_reset_each_epoch [where self = packed_trainer and st = "initial_state 1"
      and env = sample_env and args = sample_args and data = packed_batch
      and rest = "[packed_batch]"]
  note t2 = ema_reset_each_epoch [where self = packed_trainer and st = after_first_step
      and env = sample_env and args = sample_args and data = packed_batch and rest = "[]"]
  from t1 t2 packed_step_first packed_step_second
  have b: "train_batches packed_trainer sample_env sample_args (initial_state 1)
       [packed_batch, packed_batch] = Inr after_two_steps"
    by simp
  have v: "loss_mean after_first_step = 19/100"
    "loss_mean after_two_steps = (19/100 * 0.9 + 0.1 * 1) * 0.9 + 0.1 * 1"
    "acc_mean after_two_steps = 3439/10000" "prob_mean after_two_steps = 3439/10000"
    by (simp_all add: after_first_step_def after_two_steps_def)
  from t b v packed_step_second show ?thesis
    by simp
qed

text \<open>
  Claim C6 against the code. From averages at zero, the first micro-batch of the packed
  trainer observes a loss of 1 and a probability of 1 and ends with all three averages at
  19/100, not at 1/10: the averages are updated twice in the micro-batch, after each of
  its two loss computations.
\<close>

theorem ema_after_first_micro_batch:
  "acc_mean (initial_state 1) = 0 \<and> prob_mean (initial_state 1) = 0 \<and>
   loss_mean (initial_state 1) = 0 \<and>
   loss_call sample_env (loss_fn packed_trainer) (Args3 [[1]] [[1]] None) = Inr (1, [1]) \<and>
   train_step packed_trainer sample_env sample_args (initial_state 1) packed_batch
     = Inr after_first_step \<and>
   loss_mean after_first_step = 19/100 \<and> acc_mean after_first_step = 19/100 \<and>
   prob_mean after_first_step = 19/100"
  using packed_step_first
  by (simp add: initial_state_def after_first_step_def sample_env_def)

subsection \<open>Training and evaluation compared\<close>

text \<open>
  Claim C7 against the code. For the mixture-of-experts loss that \<open>__init__\<close> selects
  (general preference, dimension 4, prompt head), training asks the forward pass for the
  model outputs and calls the loss with the prompt hidden state gathered at index
  \<open>sequence_length - chosen_response_length - 1\<close>, in both of its loss calls; evaluation
  asks for no outputs and calls the loss without a prompt hidden state.
\<close>

theorem evaluate_skips_prompt_hidden_state:
  "trainer_init (sample_args\<lparr>arg_add_prompt_head := True, arg_margin_loss := True\<rparr>) 1 True None
       plain_loader (Some empty_loader) 0 2 True 0.1 4 False = Inr moe_trainer \<and>
   fit_return_output moe_trainer = True \<and>
   evaluate_return_output moe_trainer = False \<and>
   fit_loss_args_first moe_trainer ((initial_state 1)\<lparr>v_chosen_ids := Some ids_a\<rparr>) sample_vals =
     Inr (Args4 [[1]] [[1]] [[2]] (Some [0])) \<and>
   fit_loss_args_second moe_trainer ((initial_state 1)\<lparr>v_chosen_ids := Some ids_a\<rparr>) sample_vals =
     Inr (Args4 [[1]] [[1]] [[2]] (Some [0])) \<and>
   evaluate_loss_args moe_trainer (Some ids_a) sample_vals = Inr (Args3 [[1]] [[1]] (Some [0]))"
  by (simp add: trainer_init_def select_loss_fn_def moe_trainer_def plain_trainer_def
        sample_args_def fit_return_output_def evaluate_return_output_def is_moe_def
        is_regression_moe_def fit_loss_args_first_def fit_loss_args_second_def
        evaluate_loss_args_def last_hidden_state_def sample_vals_def sample_hidden_def
        hs_take_def gather_prompt_def ids_a_def Let_def)

end
